theory Spec2Isabelle
  imports Main "HOL-Library.Word" "HOL-Library.State_Monad"
begin

section \<open>Byte buffers: ArrayBuffer, DataView and Float32Array\<close>

text \<open>
  The desktop recorder service, \<^verbatim>\<open>apps/whispering/src/lib/services/recorder/desktop.ts\<close>,
  builds a WAV file in an \<^verbatim>\<open>ArrayBuffer\<close> (\<^verbatim>\<open>createWavFromFloat32\<close>, lines 312-356).
  A buffer is a list of bytes. The \<^verbatim>\<open>DataView\<close> and the \<^verbatim>\<open>Float32Array\<close> that the source
  creates over the buffer share its memory, so one buffer value is threaded through all
  the writes. A JavaScript number that holds an integer is an \<open>int\<close>; the arithmetic of the
  encoder is exact on integers as long as no product exceeds \<open>2^53\<close>. A thrown
  \<^verbatim>\<open>RangeError\<close> is the value \<open>None\<close>.
\<close>

type_synonym byte = "8 word"
type_synonym ArrayBuffer = "byte list"

text \<open>\<^verbatim>\<open>new ArrayBuffer(byteLength)\<close>: zero-filled; a negative length throws. Memory is
  not bounded: an allocation that the engine refuses for its size is not modelled.\<close>

definition new_ArrayBuffer :: "int \<Rightarrow> ArrayBuffer option" where
  "new_ArrayBuffer byteLength =
     (if byteLength < 0 then None else Some (replicate (nat byteLength) 0))"

text \<open>
  The conversions \<^verbatim>\<open>ToUint8\<close>, \<^verbatim>\<open>ToUint16\<close> and \<^verbatim>\<open>ToUint32\<close> that the setters of a
  \<^verbatim>\<open>DataView\<close> apply to their argument reduce an integer modulo \<open>2^8\<close>, \<open>2^16\<close> and
  \<open>2^32\<close>.
\<close>

definition ToUint8 :: "int \<Rightarrow> 8 word" where
  "ToUint8 v = word_of_int v"

definition ToUint16 :: "int \<Rightarrow> 16 word" where
  "ToUint16 v = word_of_int v"

definition ToUint32 :: "int \<Rightarrow> 32 word" where
  "ToUint32 v = word_of_int v"

text \<open>The bytes of a 16-bit and of a 32-bit value, least significant byte first.\<close>

definition bytes16 :: "nat \<Rightarrow> byte list" where
  "bytes16 n = [of_nat n, of_nat (n div 256)]"

definition bytes32 :: "nat \<Rightarrow> byte list" where
  "bytes32 n = [of_nat n, of_nat (n div 256), of_nat (n div 65536), of_nat (n div 16777216)]"

text \<open>Storing a block of bytes at an offset; a block that does not fit throws.\<close>

definition SetValueInBuffer :: "ArrayBuffer \<Rightarrow> nat \<Rightarrow> byte list \<Rightarrow> ArrayBuffer option" where
  "SetValueInBuffer buffer byteOffset block =
     (if length buffer < byteOffset + length block then None
      else Some (take byteOffset buffer @ block @ drop (byteOffset + length block) buffer))"

text \<open>
  \<^verbatim>\<open>view.setUint8(byteOffset, v)\<close>, \<^verbatim>\<open>view.setUint16(byteOffset, v, littleEndian)\<close> and
  \<^verbatim>\<open>view.setUint32(byteOffset, v, littleEndian)\<close>.
\<close>

definition setUint8 :: "ArrayBuffer \<Rightarrow> nat \<Rightarrow> int \<Rightarrow> ArrayBuffer option" where
  "setUint8 view byteOffset v = SetValueInBuffer view byteOffset [ToUint8 v]"

definition setUint16 :: "ArrayBuffer \<Rightarrow> nat \<Rightarrow> int \<Rightarrow> bool \<Rightarrow> ArrayBuffer option" where
  "setUint16 view byteOffset v littleEndian =
     SetValueInBuffer view byteOffset
       (if littleEndian then bytes16 (unat (ToUint16 v)) else rev (bytes16 (unat (ToUint16 v))))"

definition setUint32 :: "ArrayBuffer \<Rightarrow> nat \<Rightarrow> int \<Rightarrow> bool \<Rightarrow> ArrayBuffer option" where
  "setUint32 view byteOffset v littleEndian =
     SetValueInBuffer view byteOffset
       (if littleEndian then bytes32 (unat (ToUint32 v)) else rev (bytes32 (unat (ToUint32 v))))"

text \<open>\<^verbatim>\<open>string.charCodeAt(i)\<close>, on the character itself.\<close>

definition charCode :: "char \<Rightarrow> int" where
  "charCode c = of_char c"

text \<open>
  \<^verbatim>\<open>writeString(view, offset, string)\<close>, lines 358-362: the loop
  \<^verbatim>\<open>for (let i = 0; i < string.length; i++) view.setUint8(offset + i, string.charCodeAt(i))\<close>
  as a recursion over the characters, the offset advancing by one each round.
\<close>

fun writeString :: "ArrayBuffer \<Rightarrow> nat \<Rightarrow> string \<Rightarrow> ArrayBuffer option" where
  "writeString view offset [] = Some view"
| "writeString view offset (c # cs) =
     (case setUint8 view offset (charCode c) of
        None \<Rightarrow> None
      | Some view' \<Rightarrow> writeString view' (offset + 1) cs)"

text \<open>
  A 32-bit float is its bit pattern. \<^verbatim>\<open>new Float32Array(buffer, byteOffset)\<close> throws
  unless the offset and the buffer's length are multiples of 4 and the offset lies in the
  buffer; \<^verbatim>\<open>.set(source)\<close> throws when the source is longer than the view, and otherwise
  copies the elements in the byte order of the platform, which is little-endian on the
  desktop targets of the application (lines 351-352).
\<close>

type_synonym float32 = "32 word"

definition float32_bytes :: "float32 \<Rightarrow> byte list" where
  "float32_bytes x = bytes32 (unat x)"

definition Float32Array_set :: "ArrayBuffer \<Rightarrow> nat \<Rightarrow> float32 list \<Rightarrow> ArrayBuffer option" where
  "Float32Array_set buffer byteOffset source =
     (if byteOffset mod 4 \<noteq> 0 \<or> length buffer mod 4 \<noteq> 0 \<or> length buffer < byteOffset then None
      else if (length buffer - byteOffset) div 4 < length source then None
      else SetValueInBuffer buffer byteOffset (concat (map float32_bytes source)))"

text \<open>\<^verbatim>\<open>new Blob([bytes], { type })\<close>: the bytes and the media type.\<close>

record Blob =
  blob_bytes :: "byte list"
  blob_type :: string

section \<open>The WAV encoder\<close>

text \<open>\<^verbatim>\<open>createWavFromFloat32(float32Array, sampleRate, numChannels)\<close>, lines 312-356.\<close>

definition createWavFromFloat32 :: "float32 list \<Rightarrow> int \<Rightarrow> int \<Rightarrow> Blob option" where
  "createWavFromFloat32 float32Array sampleRate numChannels =
     (let bitsPerSample = 32;
          bytesPerSample = bitsPerSample div 8;
          dataSize = int (length float32Array) * bytesPerSample;
          headerSize = 44;
          totalSize = headerSize + dataSize
      in do {
        buffer \<leftarrow> new_ArrayBuffer totalSize;
        view \<leftarrow> writeString buffer 0 ''RIFF'';
        view \<leftarrow> setUint32 view 4 (totalSize - 8) True;
        view \<leftarrow> writeString view 8 ''WAVE'';
        view \<leftarrow> writeString view 12 ''fmt '';
        view \<leftarrow> setUint32 view 16 16 True;
        view \<leftarrow> setUint16 view 20 3 True;
        view \<leftarrow> setUint16 view 22 numChannels True;
        view \<leftarrow> setUint32 view 24 sampleRate True;
        view \<leftarrow> setUint32 view 28 (sampleRate * numChannels * bytesPerSample) True;
        view \<leftarrow> setUint16 view 32 (numChannels * bytesPerSample) True;
        view \<leftarrow> setUint16 view 34 bitsPerSample True;
        view \<leftarrow> writeString view 36 ''data'';
        view \<leftarrow> setUint32 view 40 dataSize True;
        buffer \<leftarrow> Float32Array_set view (nat headerSize) float32Array;
        Some \<lparr>blob_bytes = buffer, blob_type = ''audio/wav''\<rparr>
      })"

section \<open>The recorder service: data\<close>

text \<open>
  The types of \<^verbatim>\<open>createDesktopRecorderService\<close>, lines 13-302. A device identifier is
  the name of a device: a string with string equality.
\<close>

type_synonym DeviceIdentifier = string

text \<open>
  \<^verbatim>\<open>DeviceAcquisitionOutcome\<close>: \<^verbatim>\<open>{ outcome: 'success' }\<close> or
  \<^verbatim>\<open>{ outcome: 'fallback', reason, fallbackDeviceId }\<close> with the reason
  \<^verbatim>\<open>'no-device-selected'\<close> or \<^verbatim>\<open>'preferred-device-unavailable'\<close> (lines 88-110).
\<close>

datatype FallbackReason = no_device_selected | preferred_device_unavailable

datatype DeviceAcquisitionOutcome =
    success
  | fallback FallbackReason DeviceIdentifier

text \<open>\<^verbatim>\<open>CancelRecordingResult\<close>: \<^verbatim>\<open>{ status: 'cancelled' }\<close> or
  \<^verbatim>\<open>{ status: 'no-recording' }\<close> (lines 258 and 299). Neither carries audio bytes.\<close>

datatype CancelRecordingResult = cancelled | no_recording

text \<open>
  \<^verbatim>\<open>StartRecordingParams\<close> is a union discriminated by \<^verbatim>\<open>platform\<close>. The desktop
  variant has the four fields that line 61 reads; a field that may be \<^verbatim>\<open>null\<close> or
  \<^verbatim>\<open>undefined\<close> is an option. The parameters of any other platform are a value of the
  type parameter \<open>'p\<close>.
\<close>

record DesktopParams =
  selectedDeviceId :: "DeviceIdentifier option"
  recordingId :: string
  outputFolder :: "string option"
  params_sampleRate :: "string option"

datatype 'p StartRecordingParams = desktop DesktopParams | other_platform 'p

text \<open>The arguments of the engine's \<^verbatim>\<open>init_recording_session\<close> command, lines 137-142.\<close>

record 'n InitArgs =
  deviceIdentifier :: "DeviceIdentifier option"
  init_recordingId :: string
  init_outputFolder :: "string option"
  init_sampleRate :: "'n option"

text \<open>
  The result of the engine's \<^verbatim>\<open>stop_recording\<close> command, lines 176-182. The samples and the
  duration are JavaScript numbers that need not be integers: values of the type parameter
  \<open>'n\<close>.
\<close>

record 'n AudioRecording =
  audioData :: "'n list"
  sampleRate :: int
  channels :: int
  durationSeconds :: 'n
  filePath :: "string option"

text \<open>
  Errors. \<^verbatim>\<open>invoke\<close> wraps what the engine rejects with, a value of the type parameter
  \<open>'e\<close>, as \<^verbatim>\<open>{ name: 'TauriInvokeError', command, error }\<close> (lines 304-310).
  A \<^verbatim>\<open>RecorderServiceError\<close> has a message, a context object and a cause; the contexts
  are the object literals of lines 39, 56, 77, 148-151, 166, 186, 208-211 and 252.
\<close>

datatype 'e TauriInvokeError = TauriInvokeError string 'e

datatype 'e Cause = cause_undefined | cause_invoke "'e TauriInvokeError" | cause_thrown 'e

datatype ('e, 'p) Context =
    context_absent
  | context_params "'p StartRecordingParams"
  | context_devices "DeviceIdentifier option" "DeviceIdentifier list"
  | context_init "DeviceIdentifier option" "DeviceIdentifier option"
  | context_start "DeviceIdentifier option" DeviceAcquisitionOutcome
  | context_operation string
  | context_readRecordingFile string string
  | context_error "'e TauriInvokeError"

record ('e, 'p) RecorderServiceError =
  message :: string
  error_context :: "('e, 'p) Context"
  cause :: "'e Cause"

definition RecorderServiceErr ::
  "string \<Rightarrow> ('e, 'p) Context \<Rightarrow> 'e Cause \<Rightarrow> ('e, 'p) RecorderServiceError + 'a" where
  "RecorderServiceErr m c k = Inl \<lparr>message = m, error_context = c, cause = k\<rparr>"

text \<open>The four long messages, verbatim from lines 38, 75, 76 and 147.\<close>

definition current_recording_failed :: string where
  "current_recording_failed =
     ''We encountered an issue while getting the current recording. This could be because your microphone is being used by another app, your microphone permissions are denied, or the selected recording device is disconnected''"

definition selected_microphone_not_found :: string where
  "selected_microphone_not_found =
     ''We couldn't find the selected microphone. Make sure it's connected and try again!''"

definition no_microphones_found :: string where
  "no_microphones_found =
     ''We couldn't find any microphones. Make sure they're connected and try again!''"

definition session_setup_failed :: string where
  "session_setup_failed =
     ''We encountered an issue while setting up your recording session. This could be because your microphone is being used by another app, your microphone permissions are denied, or the selected recording device is disconnected''"

text \<open>
  The status notifications passed to \<^verbatim>\<open>sendStatus\<close>, one constructor for each title and
  description of lines 83, 100, 124, 155, 196, 226 and 287, and 261.
\<close>

datatype Status =
    No_Device_Selected
  | Finding_a_New_Microphone
  | Setting_Up
  | Starting_Recording
  | Reading_Recording
  | Closing_Session
  | Cancelling

section \<open>The recorder service: the engine, the file store and the trace\<close>

text \<open>
  The collaborators of the service are parameters. A host gives, for a world of type \<open>'w\<close>,
  the answer of each engine command that the service invokes and of the two file
  operations, with the world after the call: \<open>Inl\<close> is a rejected promise or a thrown
  exception. It also gives the two conversions of numbers that the source leaves to the
  language: \<^verbatim>\<open>Number.parseInt(s, 10)\<close> and the rounding of a number to a 32-bit float
  that \<^verbatim>\<open>new Float32Array(numbers)\<close> performs.
\<close>

record ('w, 'e, 'n) Host =
  enumerate_recording_devices :: "'w \<Rightarrow> ('e + string list) \<times> 'w"
  get_current_recording_id :: "'w \<Rightarrow> ('e + string option) \<times> 'w"
  init_recording_session :: "'n InitArgs \<Rightarrow> 'w \<Rightarrow> ('e + unit) \<times> 'w"
  start_recording :: "'w \<Rightarrow> ('e + unit) \<times> 'w"
  stop_recording :: "'w \<Rightarrow> ('e + 'n AudioRecording) \<times> 'w"
  close_recording_session :: "'w \<Rightarrow> ('e + unit) \<times> 'w"
  fs_readFile :: "string \<Rightarrow> 'w \<Rightarrow> ('e + byte list) \<times> 'w"
  fs_remove :: "string \<Rightarrow> 'w \<Rightarrow> ('e + unit) \<times> 'w"
  parseInt10 :: "string \<Rightarrow> 'n"
  toFloat32 :: "'n \<Rightarrow> float32"

text \<open>
  Every call that leaves the service is recorded, in order: an engine command with its
  arguments, a status notification, a file read, a file removal, a line written with
  \<^verbatim>\<open>console.error\<close>. The service runs in the state monad over the world and this trace.
  The status sink and the console return normally and leave the world as it is.
\<close>

datatype ('e, 'n) Event =
    Invoke string "'n InitArgs option"
  | SendStatus Status
  | ReadFile string
  | Remove string
  | ConsoleError string "'e Cause"

record ('w, 'e, 'n) Runtime =
  world :: 'w
  trace :: "('e, 'n) Event list"

text \<open>
  The test \<^verbatim>\<open>if (v)\<close> on a value that is a string, \<^verbatim>\<open>null\<close> or \<^verbatim>\<open>undefined\<close>: the
  empty string is falsy, as the two absent values are. \<open>truthy v\<close> is the string when the
  test succeeds.
\<close>

definition truthy :: "string option \<Rightarrow> string option" where
  "truthy v = (case v of None \<Rightarrow> None | Some s \<Rightarrow> if s = [] then None else Some s)"

text \<open>\<^verbatim>\<open>array.at(0)\<close>: \<^verbatim>\<open>undefined\<close> on the empty array.\<close>

definition Array_at0 :: "'a list \<Rightarrow> 'a option" where
  "Array_at0 xs = (case xs of [] \<Rightarrow> None | x # _ \<Rightarrow> Some x)"

text \<open>
  \<^verbatim>\<open>invoke(command, args)\<close>, lines 304-310: the engine's answer to the command, an error
  wrapped with the command's name. The third argument is the host's answer to this command.
\<close>

definition invoke ::
  "string \<Rightarrow> 'n InitArgs option \<Rightarrow> ('w \<Rightarrow> ('e + 'a) \<times> 'w) \<Rightarrow>
   (('w, 'e, 'n) Runtime, 'e TauriInvokeError + 'a) state" where
  "invoke command args tauriInvoke =
     State (\<lambda>s. case tauriInvoke (world s) of
       (r, w') \<Rightarrow>
         (case r of Inl error \<Rightarrow> Inl (TauriInvokeError command error) | Inr data \<Rightarrow> Inr data,
          \<lparr>world = w', trace = trace s @ [Invoke command args]\<rparr>))"

definition emit :: "('e, 'n) Event \<Rightarrow> (('w, 'e, 'n) Runtime, unit) state" where
  "emit ev = State (\<lambda>s. ((), s\<lparr>trace := trace s @ [ev]\<rparr>))"

definition sendStatus :: "Status \<Rightarrow> (('w, 'e, 'n) Runtime, unit) state" where
  "sendStatus status = emit (SendStatus status)"

definition console_error :: "string \<Rightarrow> 'e Cause \<Rightarrow> (('w, 'e, 'n) Runtime, unit) state" where
  "console_error label err = emit (ConsoleError label err)"

text \<open>\<^verbatim>\<open>readFile(path)\<close> and \<^verbatim>\<open>remove(path)\<close> of \<^verbatim>\<open>@tauri-apps/plugin-fs\<close>, with the
  dynamic import that precedes each inside the same \<^verbatim>\<open>try\<close> block.\<close>

definition readFile :: "('w, 'e, 'n) Host \<Rightarrow> string \<Rightarrow> (('w, 'e, 'n) Runtime, 'e + byte list) state" where
  "readFile h path =
     State (\<lambda>s. case fs_readFile h path (world s) of
       (r, w') \<Rightarrow> (r, \<lparr>world = w', trace = trace s @ [ReadFile path]\<rparr>))"

definition remove :: "('w, 'e, 'n) Host \<Rightarrow> string \<Rightarrow> (('w, 'e, 'n) Runtime, 'e + unit) state" where
  "remove h path =
     State (\<lambda>s. case fs_remove h path (world s) of
       (r, w') \<Rightarrow> (r, \<lparr>world = w', trace = trace s @ [Remove path]\<rparr>))"

text \<open>An operation run from a world, with an empty trace: its result, the world it leaves
  and the calls it issued.\<close>

definition run :: "(('w, 'e, 'n) Runtime, 'a) state \<Rightarrow> 'w \<Rightarrow> 'a \<times> ('w, 'e, 'n) Runtime" where
  "run operation w = run_state operation \<lparr>world = w, trace = []\<rparr>"

section \<open>The recorder service: operations\<close>

text \<open>\<^verbatim>\<open>getCurrentRecordingId\<close>, lines 30-44.\<close>

definition getCurrentRecordingId ::
  "('w, 'e, 'n) Host \<Rightarrow>
   (('w, 'e, 'n) Runtime, ('e, 'p) RecorderServiceError + string option) state" where
  "getCurrentRecordingId h = do {
     r \<leftarrow> invoke ''get_current_recording_id'' None (get_current_recording_id h);
     case r of
       Inl getCurrentRecordingIdError \<Rightarrow>
         State_Monad.return (RecorderServiceErr current_recording_failed
           (context_error getCurrentRecordingIdError) (cause_invoke getCurrentRecordingIdError))
     | Inr currentId \<Rightarrow> State_Monad.return (Inr currentId)
   }"

text \<open>\<^verbatim>\<open>enumerateRecordingDeviceIds\<close>, lines 14-27.\<close>

definition enumerateRecordingDeviceIds ::
  "('w, 'e, 'n) Host \<Rightarrow>
   (('w, 'e, 'n) Runtime, ('e, 'p) RecorderServiceError + DeviceIdentifier list) state" where
  "enumerateRecordingDeviceIds h = do {
     r \<leftarrow> invoke ''enumerate_recording_devices'' None (enumerate_recording_devices h);
     case r of
       Inl enumerateRecordingDevicesError \<Rightarrow>
         State_Monad.return (RecorderServiceErr ''Failed to enumerate recording devices''
           context_absent (cause_invoke enumerateRecordingDevicesError))
     | Inr deviceNames \<Rightarrow> State_Monad.return (Inr deviceNames)
   }"

text \<open>
  \<^verbatim>\<open>acquireDevice\<close>, lines 67-111, a closure over the enumerated list and the selected
  device. The guards \<^verbatim>\<open>if (!fallbackDeviceId)\<close> and \<^verbatim>\<open>if (!selectedDeviceId)\<close> are
  truthiness tests; \<^verbatim>\<open>deviceIds.includes\<close> is membership.
\<close>

definition acquireDevice ::
  "DeviceIdentifier list \<Rightarrow> DeviceIdentifier option \<Rightarrow>
   (('w, 'e, 'n) Runtime, ('e, 'p) RecorderServiceError + DeviceAcquisitionOutcome) state" where
  "acquireDevice deviceIds selected =
     (case truthy (Array_at0 deviceIds) of
        None \<Rightarrow>
          State_Monad.return (RecorderServiceErr
            (case truthy selected of
               Some _ \<Rightarrow> selected_microphone_not_found
             | None \<Rightarrow> no_microphones_found)
            (context_devices selected deviceIds) cause_undefined)
      | Some fallbackDeviceId \<Rightarrow>
          (case truthy selected of
             None \<Rightarrow> do {
               sendStatus No_Device_Selected;
               State_Monad.return (Inr (fallback no_device_selected fallbackDeviceId))
             }
           | Some selectedId \<Rightarrow>
               (let deviceExists = (selectedId \<in> set deviceIds) in
                if deviceExists then State_Monad.return (Inr success)
                else do {
                  sendStatus Finding_a_New_Microphone;
                  State_Monad.return (Inr (fallback preferred_device_unavailable fallbackDeviceId))
                })))"

text \<open>The device handed to the engine, lines 118-121, and the arguments of the
  \<^verbatim>\<open>init_recording_session\<close> command, lines 131-142.\<close>

definition chosenDevice :: "DeviceIdentifier option \<Rightarrow> DeviceAcquisitionOutcome \<Rightarrow> DeviceIdentifier option" where
  "chosenDevice selected deviceOutcome =
     (case deviceOutcome of
        success \<Rightarrow> selected
      | fallback reason fallbackDeviceId \<Rightarrow> Some fallbackDeviceId)"

definition initArgs :: "('w, 'e, 'n) Host \<Rightarrow> DesktopParams \<Rightarrow> DeviceIdentifier option \<Rightarrow> 'n InitArgs" where
  "initArgs h params device =
     \<lparr>deviceIdentifier = device,
      init_recordingId = recordingId params,
      init_outputFolder = truthy (outputFolder params),
      init_sampleRate = map_option (parseInt10 h) (truthy (params_sampleRate params))\<rparr>"

text \<open>\<^verbatim>\<open>startRecording\<close>, lines 48-171.\<close>

definition startRecording ::
  "('w, 'e, 'n) Host \<Rightarrow> 'p StartRecordingParams \<Rightarrow>
   (('w, 'e, 'n) Runtime, ('e, 'p) RecorderServiceError + DeviceAcquisitionOutcome) state" where
  "startRecording h params =
     (case params of
        other_platform p \<Rightarrow>
          State_Monad.return (RecorderServiceErr ''Desktop recorder received non-desktop parameters''
            (context_params params) cause_undefined)
      | desktop dp \<Rightarrow> do {
          enumerated \<leftarrow> enumerateRecordingDeviceIds h;
          case enumerated of
            Inl enumerateError \<Rightarrow> State_Monad.return (Inl enumerateError)
          | Inr deviceIds \<Rightarrow> do {
              acquired \<leftarrow> acquireDevice deviceIds (selectedDeviceId dp);
              case acquired of
                Inl acquireDeviceError \<Rightarrow> State_Monad.return (Inl acquireDeviceError)
              | Inr deviceOutcome \<Rightarrow> do {
                  sendStatus Setting_Up;
                  initialised \<leftarrow> invoke ''init_recording_session''
                    (Some (initArgs h dp (chosenDevice (selectedDeviceId dp) deviceOutcome)))
                    (init_recording_session h
                       (initArgs h dp (chosenDevice (selectedDeviceId dp) deviceOutcome)));
                  case initialised of
                    Inl initRecordingSessionError \<Rightarrow>
                      State_Monad.return (RecorderServiceErr session_setup_failed
                        (context_init (selectedDeviceId dp)
                           (chosenDevice (selectedDeviceId dp) deviceOutcome))
                        (cause_invoke initRecordingSessionError))
                  | Inr _ \<Rightarrow> do {
                      sendStatus Starting_Recording;
                      started \<leftarrow> invoke ''start_recording'' None (start_recording h);
                      case started of
                        Inl startRecordingError \<Rightarrow>
                          State_Monad.return (RecorderServiceErr
                            ''Unable to start recording. Please check your microphone and try again.''
                            (context_start (chosenDevice (selectedDeviceId dp) deviceOutcome)
                               deviceOutcome)
                            (cause_invoke startRecordingError))
                      | Inr _ \<Rightarrow> State_Monad.return (Inr deviceOutcome)
                    }
                }
            }
        })"

text \<open>
  The blob of \<^verbatim>\<open>stopRecording\<close>, lines 191-223: \<^verbatim>\<open>if (audioRecording.filePath)\<close> reads
  the file, and the other branch encodes the samples. The result is \<open>Inr\<close> the blob, or
  \<open>Inl\<close> what \<^verbatim>\<open>stopRecording\<close> ends with at once: the error of line 206, or \<open>None\<close> for
  an exception of the encoder, which nothing catches.
\<close>

definition recordingBlob ::
  "('w, 'e, 'n) Host \<Rightarrow> 'n AudioRecording \<Rightarrow>
   (('w, 'e, 'n) Runtime, (('e, 'p) RecorderServiceError + Blob) option + Blob) state" where
  "recordingBlob h audioRecording =
     (case truthy (filePath audioRecording) of
        Some path \<Rightarrow> do {
          sendStatus Reading_Recording;
          fileRead \<leftarrow> readFile h path;
          case fileRead of
            Inl error \<Rightarrow>
              State_Monad.return (Inl (Some (RecorderServiceErr
                ''Unable to read recording file. Please try again.''
                (context_readRecordingFile ''readRecordingFile'' path) (cause_thrown error))))
          | Inr fileBytes \<Rightarrow>
              State_Monad.return (Inr \<lparr>blob_bytes = fileBytes, blob_type = ''audio/wav''\<rparr>)
        }
      | None \<Rightarrow>
          (let float32Array = map (toFloat32 h) (audioData audioRecording) in
           case createWavFromFloat32 float32Array (sampleRate audioRecording)
                  (channels audioRecording) of
             None \<Rightarrow> State_Monad.return (Inl None)
           | Some blob \<Rightarrow> State_Monad.return (Inr blob)))"

text \<open>Closing the session, lines 225-236 and again lines 286-297: a failure is written to
  the console and nothing else.\<close>

definition closeSession :: "('w, 'e, 'n) Host \<Rightarrow> (('w, 'e, 'n) Runtime, unit) state" where
  "closeSession h = do {
     sendStatus Closing_Session;
     closed \<leftarrow> invoke ''close_recording_session'' None (close_recording_session h);
     case closed of
       Inl closeError \<Rightarrow> console_error ''Failed to close recording session:'' (cause_invoke closeError)
     | Inr _ \<Rightarrow> State_Monad.return ()
   }"

text \<open>\<^verbatim>\<open>stopRecording\<close>, lines 173-239. The result \<open>None\<close> is a promise rejected with an
  exception; \<open>Some\<close> is the \<^verbatim>\<open>Result\<close> the promise resolves to.\<close>

definition stopRecording ::
  "('w, 'e, 'n) Host \<Rightarrow>
   (('w, 'e, 'n) Runtime, (('e, 'p) RecorderServiceError + Blob) option) state" where
  "stopRecording h = do {
     stopped \<leftarrow> invoke ''stop_recording'' None (stop_recording h);
     case stopped of
       Inl stopRecordingError \<Rightarrow>
         State_Monad.return (Some (RecorderServiceErr
           ''Unable to save your recording. Please try again.''
           (context_operation ''stopRecording'') (cause_invoke stopRecordingError)))
     | Inr audioRecording \<Rightarrow> do {
         produced \<leftarrow> recordingBlob h audioRecording;
         case produced of
           Inl early \<Rightarrow> State_Monad.return early
         | Inr blob \<Rightarrow> do {
             closeSession h;
             State_Monad.return (Some (Inr blob))
           }
       }
   }"

text \<open>
  \<^verbatim>\<open>cancelRecording\<close>, lines 241-300. Line 268 keeps the data of the stop command and
  drops its error; \<^verbatim>\<open>audioRecording?.filePath\<close> is absent when the command failed.
\<close>

definition cancelRecording ::
  "('w, 'e, 'n) Host \<Rightarrow>
   (('w, 'e, 'n) Runtime, ('e, 'p) RecorderServiceError + CancelRecordingResult) state" where
  "cancelRecording h = do {
     current \<leftarrow> invoke ''get_current_recording_id'' None (get_current_recording_id h);
     case current of
       Inl getRecordingIdError \<Rightarrow>
         State_Monad.return (RecorderServiceErr
           ''Unable to check recording state. Please try closing the app and starting again.''
           (context_operation ''cancelRecording'') (cause_invoke getRecordingIdError))
     | Inr currentRecordingId \<Rightarrow>
         (case truthy currentRecordingId of
            None \<Rightarrow> State_Monad.return (Inr no_recording)
          | Some _ \<Rightarrow> do {
              sendStatus Cancelling;
              stopped \<leftarrow> invoke ''stop_recording'' None (stop_recording h);
              (case (case stopped of
                       Inl _ \<Rightarrow> None
                     | Inr audioRecording \<Rightarrow> truthy (filePath audioRecording)) of
                 Some path \<Rightarrow> do {
                   removed \<leftarrow> remove h path;
                   case removed of
                     Inl error \<Rightarrow> console_error ''Failed to delete recording file:'' (cause_thrown error)
                   | Inr _ \<Rightarrow> State_Monad.return ()
                 }
               | None \<Rightarrow> State_Monad.return ());
              closeSession h;
              State_Monad.return (Inr cancelled)
            })
   }"

section \<open>Reading a WAV buffer\<close>

text \<open>
  What a reader of the file sees: \<^verbatim>\<open>DataView.getUint16\<close> and \<^verbatim>\<open>getUint32\<close> with
  \<^verbatim>\<open>littleEndian = true\<close>, which throw beyond the end of the buffer, a slice of the
  buffer, and the bytes of an ASCII tag.
\<close>

definition getUint16_le :: "ArrayBuffer \<Rightarrow> nat \<Rightarrow> nat option" where
  "getUint16_le view byteOffset =
     (case take 2 (drop byteOffset view) of
        [b0, b1] \<Rightarrow> Some (unat b0 + 256 * unat b1)
      | _ \<Rightarrow> None)"

definition getUint32_le :: "ArrayBuffer \<Rightarrow> nat \<Rightarrow> nat option" where
  "getUint32_le view byteOffset =
     (case take 4 (drop byteOffset view) of
        [b0, b1, b2, b3] \<Rightarrow>
          Some (unat b0 + 256 * unat b1 + 65536 * unat b2 + 16777216 * unat b3)
      | _ \<Rightarrow> None)"

definition ascii :: "string \<Rightarrow> byte list" where
  "ascii s = map (\<lambda>c. of_nat (of_char c)) s"

definition slice :: "ArrayBuffer \<Rightarrow> nat \<Rightarrow> nat \<Rightarrow> byte list" where
  "slice buffer start n = take n (drop start buffer)"

text \<open>The 44 bytes that the encoder writes before the samples, in the order of its writes,
  and the 16-bit field of an encoded file at an offset.\<close>

definition wav_header :: "nat \<Rightarrow> int \<Rightarrow> int \<Rightarrow> byte list" where
  "wav_header n R C =
     ascii ''RIFF'' @ bytes32 (unat (ToUint32 (44 + int n * 4 - 8))) @ ascii ''WAVE'' @
     ascii ''fmt '' @ bytes32 (unat (ToUint32 16)) @ bytes16 (unat (ToUint16 3)) @
     bytes16 (unat (ToUint16 C)) @ bytes32 (unat (ToUint32 R)) @
     bytes32 (unat (ToUint32 (R * C * 4))) @
     bytes16 (unat (ToUint16 (C * 4))) @ bytes16 (unat (ToUint16 32)) @
     ascii ''data'' @ bytes32 (unat (ToUint32 (int n * 4)))"

definition wav_u16 :: "float32 list \<Rightarrow> int \<Rightarrow> int \<Rightarrow> nat \<Rightarrow> nat option" where
  "wav_u16 S R C off =
     (case createWavFromFloat32 S R C of
        None \<Rightarrow> None
      | Some wav \<Rightarrow> getUint16_le (blob_bytes wav) off)"

section \<open>Numbers as 32-bit floats\<close>

text \<open>
  The element that \<^verbatim>\<open>new Float32Array(numbers)\<close> stores for a number that is an integer:
  the nearest 32-bit IEEE-754 float, a tie going to the even significand and a magnitude
  beyond the largest float to infinity, as its bit pattern (sign, 8 bits of biased
  exponent, 23 bits of fraction). The number 1 is stored as \<open>0x3F800000\<close> and 258 as
  \<open>0x43810000\<close>.
\<close>

fun floor_log2 :: "nat \<Rightarrow> nat" where
  "floor_log2 n = (if n < 2 then 0 else Suc (floor_log2 (n div 2)))"

declare floor_log2.simps [simp del]

definition float32_of_int :: "int \<Rightarrow> float32" where
  "float32_of_int n =
     (if n = 0 then 0
      else
        let sign = (if n < 0 then 2147483648 else 0 :: nat);
            m = nat \<bar>n\<bar>;
            e = floor_log2 m;
            shift = e - 23;
            q = m div 2 ^ shift;
            r = m mod 2 ^ shift;
            half = 2 ^ (shift - 1);
            rounded = (if e \<le> 23 then m * 2 ^ (23 - e)
                       else if half < r \<or> (r = half \<and> odd q) then q + 1 else q);
            significand = (if rounded = 2 ^ 24 then 2 ^ 23 else rounded);
            exponent = (if rounded = 2 ^ 24 then e + 1 else e)
        in if 127 < exponent then of_nat (sign + 2139095040)
           else of_nat (sign + (exponent + 127) * 2 ^ 23 + (significand - 2 ^ 23)))"

section \<open>Example hosts\<close>

text \<open>
  Hosts for concrete runs. The world counts the calls served, and the numbers of these
  hosts are integers, rounded to floats by \<open>float32_of_int\<close>. The first host has two
  microphones and an engine that records to a file; the others differ from it in one or
  two answers.
\<close>

definition example_host :: "(nat, string, int) Host" where
  "example_host =
     \<lparr>enumerate_recording_devices = (\<lambda>w. (Inr [''Built-in Microphone'', ''USB Microphone''], Suc w)),
      get_current_recording_id = (\<lambda>w. (Inr (Some ''rec-1''), Suc w)),
      init_recording_session = (\<lambda>args w. (Inr (), Suc w)),
      start_recording = (\<lambda>w. (Inr (), Suc w)),
      stop_recording = (\<lambda>w. (Inr \<lparr>audioData = [], sampleRate = 16000, channels = 1,
                                      durationSeconds = 0, filePath = Some ''rec-1.wav''\<rparr>, Suc w)),
      close_recording_session = (\<lambda>w. (Inr (), Suc w)),
      fs_readFile = (\<lambda>path w. (Inr [82, 73, 70, 70], Suc w)),
      fs_remove = (\<lambda>path w. (Inr (), Suc w)),
      parseInt10 = (\<lambda>s. 16000),
      toFloat32 = float32_of_int\<rparr>"

definition legacy_host :: "(nat, string, int) Host" where
  "legacy_host = example_host
     \<lparr>stop_recording := (\<lambda>w. (Inr \<lparr>audioData = [1, 258], sampleRate = 44100, channels = 2,
                                         durationSeconds = 0, filePath = None\<rparr>, Suc w))\<rparr>"

definition empty_path_host :: "(nat, string, int) Host" where
  "empty_path_host = example_host
     \<lparr>stop_recording := (\<lambda>w. (Inr \<lparr>audioData = [1, 258], sampleRate = 44100, channels = 2,
                                         durationSeconds = 0, filePath = Some ''''\<rparr>, Suc w))\<rparr>"

definition failing_cleanup_host :: "(nat, string, int) Host" where
  "failing_cleanup_host = example_host
     \<lparr>close_recording_session := (\<lambda>w. (Inl ''session busy'', Suc w)),
      fs_remove := (\<lambda>path w. (Inl ''permission denied'', Suc w))\<rparr>"

definition failing_stop_host :: "(nat, string, int) Host" where
  "failing_stop_host = example_host
     \<lparr>stop_recording := (\<lambda>w. (Inl ''no active session'', Suc w))\<rparr>"

definition failing_init_host :: "(nat, string, int) Host" where
  "failing_init_host = example_host
     \<lparr>init_recording_session := (\<lambda>args w. (Inl ''device busy'', Suc w))\<rparr>"

definition idle_host :: "(nat, string, int) Host" where
  "idle_host = example_host
     \<lparr>get_current_recording_id := (\<lambda>w. (Inr None, Suc w))\<rparr>"

definition example_params :: DesktopParams where
  "example_params =
     \<lparr>selectedDeviceId = Some ''USB Microphone'', recordingId = ''rec-1'',
      outputFolder = None, params_sampleRate = Some ''16000''\<rparr>"

section \<open>The WAV encoder: proofs\<close>

subsection \<open>Bytes and values\<close>

lemma zeros44:
  "replicate 44 (0::byte) =
     [0,0,0,0,0,0,0,0,0,0,0,0,0,0,0,0,0,0,0,0,0,0,0,0,0,0,0,0,0,0,0,0,0,0,0,0,0,0,0,0,0,0,0,0]"
  by (simp add: numeral_eq_Suc)

lemma length_float32_bytes: "length (float32_bytes x) = 4"
  by (simp add: float32_bytes_def bytes32_def)

lemma length_samples: "length (concat (map float32_bytes S)) = 4 * length S"
  by (induction S) (simp_all add: length_float32_bytes)

lemma unat_byte_of_nat: "unat (of_nat n :: byte) = n mod 256"
  by (simp add: unsigned_of_nat take_bit_eq_mod)

lemma le16_value:
  assumes "n < 65536"
  shows "unat (of_nat n :: byte) + 256 * unat (of_nat (n div 256) :: byte) = n"
proof -
  from assms have "n div 256 < 256" by simp
  then show ?thesis by (simp add: unat_byte_of_nat)
qed

lemma le32_value:
  assumes n: "n < 4294967296"
  shows "unat (of_nat n :: byte) + 256 * unat (of_nat (n div 256) :: byte)
       + 65536 * unat (of_nat (n div 65536) :: byte)
       + 16777216 * unat (of_nat (n div 16777216) :: byte) = n"
proof -
  have a: "n div 16777216 mod 256 = n div 16777216" using n by simp
  have b: "n div 65536 = (n div 16777216) * 256 + n div 65536 mod 256"
    using div_mult2_eq[of n 65536 256] by simp
  have c: "n div 256 = (n div 65536) * 256 + n div 256 mod 256"
    using div_mult2_eq[of n 256 256] by simp
  have d: "n = (n div 256) * 256 + n mod 256" by simp
  have "n mod 256 + 256 * (n div 256 mod 256) + 65536 * (n div 65536 mod 256)
       + 16777216 * (n div 16777216 mod 256) = n"
    using a b c d by linarith
  then show ?thesis by (simp only: unat_byte_of_nat)
qed

lemma unat_ToUint16: "unat (ToUint16 v) = nat (v mod 65536)"
  by (simp add: ToUint16_def unsigned_of_int take_bit_eq_mod nat_mod_distrib)

lemma unat_ToUint32: "unat (ToUint32 v) = nat (v mod 4294967296)"
  by (simp add: ToUint32_def unsigned_of_int take_bit_eq_mod nat_mod_distrib)

lemma ToUint16_lt: "unat (ToUint16 v) < 65536"
  using unsigned_less[of "ToUint16 v"] by simp

lemma ToUint32_lt: "unat (ToUint32 v) < 4294967296"
  using unsigned_less[of "ToUint32 v"] by simp

subsection \<open>The encoder never throws, and what it returns\<close>

lemma length_wav_header: "length (wav_header n R C) = 44"
  by (simp add: wav_header_def ascii_def bytes16_def bytes32_def)

lemma createWavFromFloat32_closed_form:
  "createWavFromFloat32 S R C =
     Some \<lparr>blob_bytes = wav_header (length S) R C @ concat (map float32_bytes S),
           blob_type = ''audio/wav''\<rparr>"
  apply (simp add: createWavFromFloat32_def new_ArrayBuffer_def nat_add_distrib nat_mult_distrib
           replicate_add zeros44 setUint8_def setUint16_def setUint32_def SetValueInBuffer_def
           Float32Array_set_def bytes16_def bytes32_def length_samples wav_header_def ascii_def
           Let_def)
  apply (simp add: charCode_def ToUint8_def)
  done

lemma drop_samples:
  "drop (4 * i) (concat (map float32_bytes S)) = concat (map float32_bytes (drop i S))"
proof (induction S arbitrary: i)
  case Nil
  then show ?case by simp
next
  case (Cons x xs)
  show ?case
  proof (cases i)
    case 0
    then show ?thesis by simp
  next
    case (Suc j)
    then show ?thesis using Cons.IH[of j] by (simp add: length_float32_bytes)
  qed
qed

lemma read_sample:
  assumes "i < length S" and "length hdr = 44"
  shows "getUint32_le (hdr @ concat (map float32_bytes S)) (44 + 4 * i) = Some (unat (S ! i))"
proof -
  have "drop (44 + 4 * i) (hdr @ concat (map float32_bytes S))
      = concat (map float32_bytes (drop i S))"
    using assms(2) drop_samples[of i S] by simp
  also have "\<dots> = float32_bytes (S ! i) @ concat (map float32_bytes (drop (Suc i) S))"
    using assms(1) by (simp flip: Cons_nth_drop_Suc)
  finally have "take 4 (drop (44 + 4 * i) (hdr @ concat (map float32_bytes S)))
      = bytes32 (unat (S ! i))"
    by (simp add: float32_bytes_def bytes32_def)
  moreover have "unat (S ! i) < 4294967296"
    using unsigned_less[of "S ! i"] by simp
  ultimately show ?thesis
    using le32_value[of "unat (S ! i)"] by (simp add: getUint32_le_def bytes32_def)
qed

lemma header_slices:
  "slice (wav_header n R C @ d) 0 4 = ascii ''RIFF''"
  "slice (wav_header n R C @ d) 8 4 = ascii ''WAVE''"
  "slice (wav_header n R C @ d) 12 4 = ascii ''fmt ''"
  "slice (wav_header n R C @ d) 36 4 = ascii ''data''"
  by (simp_all add: slice_def wav_header_def ascii_def bytes16_def bytes32_def)

lemma header_u32:
  "getUint32_le (wav_header n R C @ d) 4 = Some (unat (ToUint32 (44 + int n * 4 - 8)))"
  "getUint32_le (wav_header n R C @ d) 16 = Some (unat (ToUint32 16))"
  "getUint32_le (wav_header n R C @ d) 24 = Some (unat (ToUint32 R))"
  "getUint32_le (wav_header n R C @ d) 28 = Some (unat (ToUint32 (R * C * 4)))"
  "getUint32_le (wav_header n R C @ d) 40 = Some (unat (ToUint32 (int n * 4)))"
  using le32_value[OF ToUint32_lt]
  by (simp_all add: getUint32_le_def wav_header_def ascii_def bytes16_def bytes32_def)

lemma header_u16:
  "getUint16_le (wav_header n R C @ d) 20 = Some (unat (ToUint16 3))"
  "getUint16_le (wav_header n R C @ d) 22 = Some (unat (ToUint16 C))"
  "getUint16_le (wav_header n R C @ d) 32 = Some (unat (ToUint16 (C * 4)))"
  "getUint16_le (wav_header n R C @ d) 34 = Some (unat (ToUint16 32))"
  using le16_value[OF ToUint16_lt]
  by (simp_all add: getUint16_le_def wav_header_def ascii_def bytes16_def bytes32_def)

subsection \<open>The layout of the file\<close>

text \<open>
  C1 (amended). For every sample sequence \<open>S\<close>, sample rate \<open>R > 0\<close> and channel count
  \<open>C > 0\<close> whose header values fit their fields (\<open>4 C < 2^16\<close>, \<open>4 R C < 2^32\<close> and
  \<open>36 + 4 |S| < 2^32\<close>), the encoder returns a blob of type \<^verbatim>\<open>audio/wav\<close> of exactly
  \<open>44 + 4 |S|\<close> bytes. Bytes 0-3, 8-11, 12-15 and 36-39 are the ASCII tags \<^verbatim>\<open>RIFF\<close>,
  \<^verbatim>\<open>WAVE\<close>, \<^verbatim>\<open>fmt \<close> and \<^verbatim>\<open>data\<close>. Read little-endian, the u32 at 4 is the total
  size minus 8, the u32 at 16 is 16, the u16 at 20 is 3, the u16 at 22 is \<open>C\<close>, the u32 at 24
  is \<open>R\<close>, the u32 at 28 is \<open>4 R C\<close>, the u16 at 32 is \<open>4 C\<close>, the u16 at 34 is 32 and the
  u32 at 40 is \<open>4 |S|\<close>. The four bytes at \<open>44 + 4 i\<close> are the bit pattern of the \<open>i\<close>-th
  sample, least significant byte first, for every \<open>i < |S|\<close>.
\<close>

theorem createWavFromFloat32_layout:
  assumes "0 < R" and "0 < C"
    and "C * 4 < 65536" and "R * C * 4 < 4294967296"
    and "44 + int (length S) * 4 - 8 < 4294967296"
  shows "\<exists>wav. createWavFromFloat32 S R C = Some wav
     \<and> blob_type wav = ''audio/wav''
     \<and> length (blob_bytes wav) = 44 + 4 * length S
     \<and> slice (blob_bytes wav) 0 4 = ascii ''RIFF''
     \<and> slice (blob_bytes wav) 8 4 = ascii ''WAVE''
     \<and> slice (blob_bytes wav) 12 4 = ascii ''fmt ''
     \<and> slice (blob_bytes wav) 36 4 = ascii ''data''
     \<and> getUint32_le (blob_bytes wav) 4 = Some (44 + 4 * length S - 8)
     \<and> getUint32_le (blob_bytes wav) 16 = Some 16
     \<and> getUint16_le (blob_bytes wav) 20 = Some 3
     \<and> getUint16_le (blob_bytes wav) 22 = Some (nat C)
     \<and> getUint32_le (blob_bytes wav) 24 = Some (nat R)
     \<and> getUint32_le (blob_bytes wav) 28 = Some (nat (R * C * 4))
     \<and> getUint16_le (blob_bytes wav) 32 = Some (nat (C * 4))
     \<and> getUint16_le (blob_bytes wav) 34 = Some 32
     \<and> getUint32_le (blob_bytes wav) 40 = Some (4 * length S)
     \<and> (\<forall>i<length S. getUint32_le (blob_bytes wav) (44 + 4 * i) = Some (unat (S ! i)))"
proof -
  define d where "d = concat (map float32_bytes S)"
  define wav where "wav = \<lparr>blob_bytes = wav_header (length S) R C @ d, blob_type = ''audio/wav''\<rparr>"
  have run: "createWavFromFloat32 S R C = Some wav"
    by (simp add: createWavFromFloat32_closed_form wav_def d_def)
  have bytes: "blob_bytes wav = wav_header (length S) R C @ d"
    by (simp add: wav_def)
  have ty: "blob_type wav = ''audio/wav''"
    by (simp add: wav_def)
  have len: "length (blob_bytes wav) = 44 + 4 * length S"
    by (simp add: bytes length_wav_header d_def length_samples)
  have C16: "C < 65536"
    using assms by simp
  have "R * 1 \<le> R * C"
    using assms(1,2) by (intro mult_left_mono) simp_all
  then have R32: "R < 4294967296"
    using assms(4) by linarith
  have R1: "1 \<le> R" and C1: "1 \<le> C" using assms by auto
  have RC: "0 \<le> R * C * 4" using assms by simp
  have f4: "getUint32_le (blob_bytes wav) 4 = Some (44 + 4 * length S - 8)"
    using assms(5) by (simp add: bytes header_u32 unat_ToUint32 nat_add_distrib nat_mult_distrib)
  have f16: "getUint32_le (blob_bytes wav) 16 = Some 16"
    by (simp add: bytes header_u32 unat_ToUint32)
  have f20: "getUint16_le (blob_bytes wav) 20 = Some 3"
    by (simp add: bytes header_u16 unat_ToUint16)
  have f22: "getUint16_le (blob_bytes wav) 22 = Some (nat C)"
    using assms(2) C16 by (simp add: bytes header_u16 unat_ToUint16)
  have f24: "getUint32_le (blob_bytes wav) 24 = Some (nat R)"
    using assms(1) R32 by (simp add: bytes header_u32 unat_ToUint32)
  have f28: "getUint32_le (blob_bytes wav) 28 = Some (nat (R * C * 4))"
    using RC assms(4) by (simp add: bytes header_u32 unat_ToUint32)
  have f32: "getUint16_le (blob_bytes wav) 32 = Some (nat (C * 4))"
    using assms(2,3) by (simp add: bytes header_u16 unat_ToUint16)
  have f34: "getUint16_le (blob_bytes wav) 34 = Some 32"
    by (simp add: bytes header_u16 unat_ToUint16)
  have f40: "getUint32_le (blob_bytes wav) 40 = Some (4 * length S)"
    using assms(5) by (simp add: bytes header_u32 unat_ToUint32 nat_mult_distrib)
  have data: "\<forall>i<length S. getUint32_le (blob_bytes wav) (44 + 4 * i) = Some (unat (S ! i))"
    by (simp add: bytes d_def read_sample length_wav_header)
  show ?thesis
    using run ty len f4 f16 f20 f22 f24 f28 f32 f34 f40 data
    by (simp add: bytes header_slices)
qed

text \<open>The layout at two samples, 44100 Hz, stereo.\<close>

theorem createWavFromFloat32_layout_witness:
  "0 < (44100::int) \<and> 0 < (2::int) \<and> (2::int) * 4 < 65536 \<and> (44100::int) * 2 * 4 < 4294967296
   \<and> 44 + int (length [1, 258 :: float32]) * 4 - 8 < 4294967296
   \<and> (\<exists>wav. createWavFromFloat32 [1, 258] 44100 2 = Some wav
        \<and> length (blob_bytes wav) = 52
        \<and> getUint32_le (blob_bytes wav) 4 = Some 44
        \<and> getUint16_le (blob_bytes wav) 22 = Some 2
        \<and> getUint32_le (blob_bytes wav) 24 = Some 44100
        \<and> getUint32_le (blob_bytes wav) 28 = Some 352800
        \<and> getUint16_le (blob_bytes wav) 32 = Some 8
        \<and> getUint32_le (blob_bytes wav) 40 = Some 8
        \<and> getUint32_le (blob_bytes wav) 48 = Some 258)"
proof -
  obtain wav where w: "createWavFromFloat32 [1, 258] 44100 2 = Some wav"
     "length (blob_bytes wav) = 44 + 4 * length [1, 258 :: float32]"
     "getUint32_le (blob_bytes wav) 4 = Some (44 + 4 * length [1, 258 :: float32] - 8)"
     "getUint16_le (blob_bytes wav) 22 = Some (nat 2)"
     "getUint32_le (blob_bytes wav) 24 = Some (nat 44100)"
     "getUint32_le (blob_bytes wav) 28 = Some (nat (44100 * 2 * 4))"
     "getUint16_le (blob_bytes wav) 32 = Some (nat (2 * 4))"
     "getUint32_le (blob_bytes wav) 40 = Some (4 * length [1, 258 :: float32])"
     "\<forall>i<length [1, 258 :: float32]. getUint32_le (blob_bytes wav) (44 + 4 * i) = Some (unat ([1, 258 :: float32] ! i))"
    using createWavFromFloat32_layout [of 44100 2 "[1, 258]"] by auto
  from w(9) have "getUint32_le (blob_bytes wav) (44 + 4 * 1) = Some (unat ([1, 258 :: float32] ! 1))"
    by (elim allE [of _ 1]) simp
  then have "getUint32_le (blob_bytes wav) 48 = Some 258" by simp
  with w show ?thesis by simp
qed

text \<open>
  C1 as stated, for every \<open>C > 0\<close>, fails: \<^verbatim>\<open>setUint16\<close> stores the channel count modulo
  \<open>2^16\<close>, so with 65536 channels the u16 at offset 22 is 0.
\<close>

theorem createWavFromFloat32_channels_counterexample:
  "0 < (48000::int) \<and> 0 < (65536::int)
   \<and> wav_u16 [] 48000 65536 22 = Some 0
   \<and> wav_u16 [] 48000 65536 22 \<noteq> Some (nat 65536)"
  using header_u16(2) [of 0 48000 65536 "[]"]
  by (simp add: wav_u16_def createWavFromFloat32_closed_form unat_ToUint16)


section \<open>The recorder service: proofs\<close>

subsection \<open>Running the primitives\<close>

lemma run_state_invoke:
  "run_state (invoke command args tauriInvoke) s =
     (case tauriInvoke (world s) of
        (r, w') \<Rightarrow>
          (case r of Inl error \<Rightarrow> Inl (TauriInvokeError command error) | Inr data \<Rightarrow> Inr data,
           \<lparr>world = w', trace = trace s @ [Invoke command args]\<rparr>))"
  by (simp add: invoke_def)

lemma run_state_emit: "run_state (emit ev) s = ((), s\<lparr>trace := trace s @ [ev]\<rparr>)"
  by (simp add: emit_def)

lemma run_state_readFile:
  "run_state (readFile h path) s =
     (case fs_readFile h path (world s) of
        (r, w') \<Rightarrow> (r, \<lparr>world = w', trace = trace s @ [ReadFile path]\<rparr>))"
  by (simp add: readFile_def)

lemma run_state_remove:
  "run_state (remove h path) s =
     (case fs_remove h path (world s) of
        (r, w') \<Rightarrow> (r, \<lparr>world = w', trace = trace s @ [Remove path]\<rparr>))"
  by (simp add: remove_def)

lemmas run_prims = run_state_invoke run_state_emit run_state_readFile run_state_remove
  sendStatus_def console_error_def run_def

subsection \<open>Device acquisition\<close>

text \<open>The outcome of \<^verbatim>\<open>acquireDevice\<close> in any state, and the notifications it sends.\<close>

lemma acquireDevice_outcome:
  "fst (run_state (acquireDevice deviceIds selected) s) =
     (case truthy (Array_at0 deviceIds) of
        None \<Rightarrow>
          RecorderServiceErr
            (case truthy selected of
               Some _ \<Rightarrow> selected_microphone_not_found
             | None \<Rightarrow> no_microphones_found)
            (context_devices selected deviceIds) cause_undefined
      | Some fallbackDeviceId \<Rightarrow>
          (case truthy selected of
             None \<Rightarrow> Inr (fallback no_device_selected fallbackDeviceId)
           | Some selectedId \<Rightarrow>
               if selectedId \<in> set deviceIds then Inr success
               else Inr (fallback preferred_device_unavailable fallbackDeviceId)))"
  by (simp add: acquireDevice_def run_prims split: option.splits)

lemma acquireDevice_statuses:
  assumes "run_state (acquireDevice deviceIds selected) s = (r, s')"
  shows "s' = s\<lparr>trace := trace s @
        (case r of
           Inl _ \<Rightarrow> []
         | Inr success \<Rightarrow> []
         | Inr (fallback no_device_selected _) \<Rightarrow> [SendStatus No_Device_Selected]
         | Inr (fallback preferred_device_unavailable _) \<Rightarrow> [SendStatus Finding_a_New_Microphone])\<rparr>"
  using assms
  by (auto simp: acquireDevice_def run_prims RecorderServiceErr_def Let_def
        split: option.splits if_splits)

lemma acquireDevice_named_first:
  assumes "deviceIds = first # others" and "first \<noteq> ''''"
  shows "fst (run_state (acquireDevice deviceIds selected) s) =
     (case truthy selected of
        None \<Rightarrow> Inr (fallback no_device_selected first)
      | Some selectedId \<Rightarrow>
          if selectedId \<in> set deviceIds then Inr success
          else Inr (fallback preferred_device_unavailable first))"
  using assms
  by (auto simp: acquireDevice_outcome truthy_def Array_at0_def split: option.splits)

text \<open>When acquisition fails: on the empty list, and on a list whose first entry is the
  empty string.\<close>

lemma acquireDevice_fails_iff:
  "isl (fst (run_state (acquireDevice deviceIds selected) s)) =
     (deviceIds = [] \<or> hd deviceIds = [])"
  by (cases deviceIds)
     (auto simp: acquireDevice_outcome truthy_def Array_at0_def RecorderServiceErr_def
        split: option.splits)

text \<open>
  C2. Acquisition fails when \<^verbatim>\<open>deviceIds.at(0)\<close> is falsy, and the empty string is falsy:
  on the list of an unnamed device followed by \<^verbatim>\<open>Built-in Microphone\<close>, with that
  microphone selected, \<^verbatim>\<open>acquireDevice\<close> returns the error whose message says that the
  selected microphone could not be found. The list is not empty and the selected device is
  in it.
\<close>

theorem acquireDevice_unnamed_first_device:
  "''Built-in Microphone'' \<in> set ['''', ''Built-in Microphone'']
   \<and> fst (run_state (acquireDevice ['''', ''Built-in Microphone''] (Some ''Built-in Microphone''))
          \<lparr>world = 0 :: nat, trace = [] :: (string, int) Event list\<rparr>) =
       (RecorderServiceErr selected_microphone_not_found
          (context_devices (Some ''Built-in Microphone'') ['''', ''Built-in Microphone''])
          cause_undefined ::
        (string, unit) RecorderServiceError + DeviceAcquisitionOutcome)"
  by (simp add: acquireDevice_outcome truthy_def Array_at0_def)

text \<open>
  C3 (amended). For every enumerated device list whose first entry is not the empty string
  and every preferred device identifier that is not the empty string and is a member of
  the list, device acquisition returns the success outcome, and \<^verbatim>\<open>startRecording\<close>
  enumerates, announces the set-up and then initialises the engine session with the
  preferred identifier itself as \<^verbatim>\<open>deviceIdentifier\<close>.
\<close>

theorem acquireDevice_preferred_present:
  fixes h :: "('w, 'e, 'n) Host" and s :: "('w, 'e, 'n) Runtime"
  assumes enumerate: "enumerate_recording_devices h w = (Inr deviceIds, w1)"
    and named: "deviceIds = first # others" "first \<noteq> ''''"
    and selected: "selectedDeviceId dp = Some preferred" "preferred \<noteq> ''''"
      "preferred \<in> set deviceIds"
  shows "fst (run_state (acquireDevice deviceIds (selectedDeviceId dp)) s) =
           (Inr success :: ('e, 'p) RecorderServiceError + DeviceAcquisitionOutcome)
       \<and> take 3 (trace (snd (run (startRecording h (desktop dp) ::
             (('w, 'e, 'n) Runtime, ('e, 'p) RecorderServiceError + DeviceAcquisitionOutcome) state) w))) =
           [Invoke ''enumerate_recording_devices'' None, SendStatus Setting_Up,
            Invoke ''init_recording_session'' (Some (initArgs h dp (Some preferred)))]
       \<and> deviceIdentifier (initArgs h dp (Some preferred)) = Some preferred"
proof -
  have a: "fst (run_state (acquireDevice deviceIds (selectedDeviceId dp)) s) =
           (Inr success :: ('e, 'p) RecorderServiceError + DeviceAcquisitionOutcome)"
    using named selected by (simp add: acquireDevice_named_first truthy_def)
  have b: "take 3 (trace (snd (run (startRecording h (desktop dp) ::
             (('w, 'e, 'n) Runtime, ('e, 'p) RecorderServiceError + DeviceAcquisitionOutcome) state) w))) =
           [Invoke ''enumerate_recording_devices'' None, SendStatus Setting_Up,
            Invoke ''init_recording_session'' (Some (initArgs h dp (Some preferred)))]"
    using enumerate named selected
    by (simp add: startRecording_def enumerateRecordingDeviceIds_def acquireDevice_def truthy_def
          Array_at0_def chosenDevice_def run_prims split: prod.splits sum.splits)
  have c: "deviceIdentifier (initArgs h dp (Some preferred)) = Some preferred"
    by (simp add: initArgs_def)
  from a b c show ?thesis by simp
qed

text \<open>The USB microphone, second of two, selected.\<close>

theorem acquireDevice_preferred_present_witness:
  "fst (run_state (acquireDevice [''Built-in Microphone'', ''USB Microphone'']
          (selectedDeviceId example_params))
        \<lparr>world = 0 :: nat, trace = [] :: (string, int) Event list\<rparr>) =
     (Inr success :: (string, unit) RecorderServiceError + DeviceAcquisitionOutcome)
   \<and> take 3 (trace (snd (run (startRecording example_host (desktop example_params) ::
         ((nat, string, int) Runtime,
          (string, unit) RecorderServiceError + DeviceAcquisitionOutcome) state) 0))) =
       [Invoke ''enumerate_recording_devices'' None, SendStatus Setting_Up,
        Invoke ''init_recording_session''
          (Some \<lparr>deviceIdentifier = Some ''USB Microphone'', init_recordingId = ''rec-1'',
                 init_outputFolder = None, init_sampleRate = Some 16000\<rparr>)]"
proof -
  have "enumerate_recording_devices example_host 0 =
          (Inr [''Built-in Microphone'', ''USB Microphone''], 1)"
    and "[''Built-in Microphone'', ''USB Microphone''] = ''Built-in Microphone'' # [''USB Microphone'']"
    and "''Built-in Microphone'' \<noteq> ''''"
    and "selectedDeviceId example_params = Some ''USB Microphone''"
    and "''USB Microphone'' \<noteq> ''''"
    and "''USB Microphone'' \<in> set [''Built-in Microphone'', ''USB Microphone'']"
    by (simp_all add: example_host_def example_params_def)
  from acquireDevice_preferred_present
      [where ?'p = unit and s = "\<lparr>world = 0, trace = []\<rparr>", OF this]
  show ?thesis
    by (simp add: initArgs_def example_params_def example_host_def truthy_def)
qed

text \<open>
  C3 as stated fails for a preferred identifier that is the empty string: it is a member
  of the list, and the test \<^verbatim>\<open>if (!selectedDeviceId)\<close> takes it for no selection, so the
  outcome is a fallback to the first device and not success.
\<close>

theorem acquireDevice_empty_preferred_counterexample:
  "'''' \<in> set [''Built-in Microphone'', '''']
   \<and> fst (run_state (acquireDevice [''Built-in Microphone'', ''''] (Some ''''))
          \<lparr>world = 0 :: nat, trace = [] :: (string, int) Event list\<rparr>) =
       (Inr (fallback no_device_selected ''Built-in Microphone'') ::
          (string, unit) RecorderServiceError + DeviceAcquisitionOutcome)"
  by (simp add: acquireDevice_outcome truthy_def Array_at0_def)

text \<open>
  C4 (amended). For every enumerated device list whose first entry is not the empty
  string, device acquisition returns a fallback to the first entry of the list in exactly
  two cases: with the reason \<^verbatim>\<open>no-device-selected\<close> when the selected device is absent or
  the empty string, and with the reason \<^verbatim>\<open>preferred-device-unavailable\<close> when it is a
  non-empty identifier that is not a member of the list. In the remaining case, a non-empty
  identifier that is a member of the list, the outcome is success.
\<close>

theorem acquireDevice_fallback:
  fixes s :: "('w, 'e, 'n) Runtime"
  assumes "deviceIds = first # others" and "first \<noteq> ''''"
  shows "(selected = None \<or> selected = Some '''' \<longrightarrow>
            fst (run_state (acquireDevice deviceIds selected) s) =
              (Inr (fallback no_device_selected first) ::
                 ('e, 'p) RecorderServiceError + DeviceAcquisitionOutcome))
       \<and> (\<forall>preferred. selected = Some preferred \<and> preferred \<noteq> '''' \<and> preferred \<notin> set deviceIds \<longrightarrow>
            fst (run_state (acquireDevice deviceIds selected) s) =
              (Inr (fallback preferred_device_unavailable first) ::
                 ('e, 'p) RecorderServiceError + DeviceAcquisitionOutcome))
       \<and> (\<forall>preferred. selected = Some preferred \<and> preferred \<noteq> '''' \<and> preferred \<in> set deviceIds \<longrightarrow>
            fst (run_state (acquireDevice deviceIds selected) s) =
              (Inr success :: ('e, 'p) RecorderServiceError + DeviceAcquisitionOutcome))"
  using assms by (auto simp: acquireDevice_named_first truthy_def)

text \<open>Two microphones: nothing selected, and a headset selected that is not connected.\<close>

theorem acquireDevice_fallback_witness:
  "fst (run_state (acquireDevice [''Built-in Microphone'', ''USB Microphone''] None)
          \<lparr>world = 0 :: nat, trace = [] :: (string, int) Event list\<rparr>) =
       (Inr (fallback no_device_selected ''Built-in Microphone'') ::
          (string, unit) RecorderServiceError + DeviceAcquisitionOutcome)
   \<and> fst (run_state (acquireDevice [''Built-in Microphone'', ''USB Microphone''] (Some ''Headset''))
          \<lparr>world = 0 :: nat, trace = [] :: (string, int) Event list\<rparr>) =
       (Inr (fallback preferred_device_unavailable ''Built-in Microphone'') ::
          (string, unit) RecorderServiceError + DeviceAcquisitionOutcome)"
proof -
  have ds: "[''Built-in Microphone'', ''USB Microphone''] = ''Built-in Microphone'' # [''USB Microphone'']"
    and ne: "''Built-in Microphone'' \<noteq> ''''"
    by simp_all
  from acquireDevice_fallback
      [where ?'w = nat and ?'e = string and ?'n = int and ?'p = unit, OF ds ne,
       of None "\<lparr>world = 0, trace = []\<rparr>"]
    acquireDevice_fallback
      [where ?'w = nat and ?'e = string and ?'n = int and ?'p = unit, OF ds ne,
       of "Some ''Headset''" "\<lparr>world = 0, trace = []\<rparr>"]
  show ?thesis by simp
qed

text \<open>
  C4 as stated fails for a selected identifier that is the empty string: it is given, it
  is not a member of the list, and the reason of the fallback is \<^verbatim>\<open>no-device-selected\<close>,
  not \<^verbatim>\<open>preferred-device-unavailable\<close>.
\<close>

theorem acquireDevice_empty_selection_counterexample:
  "'''' \<notin> set [''Built-in Microphone'']
   \<and> fst (run_state (acquireDevice [''Built-in Microphone''] (Some ''''))
          \<lparr>world = 0 :: nat, trace = [] :: (string, int) Event list\<rparr>) =
       (Inr (fallback no_device_selected ''Built-in Microphone'') ::
          (string, unit) RecorderServiceError + DeviceAcquisitionOutcome)"
  by (simp add: acquireDevice_outcome truthy_def Array_at0_def)

subsection \<open>Stopping a recording\<close>

text \<open>The floats of the numbers 1 and 258, and their bytes in the file.\<close>

lemma float32_of_1: "float32_of_int 1 = 0x3F800000"
  by (simp add: float32_of_int_def floor_log2.simps Let_def)

lemma float32_of_258: "float32_of_int 258 = 0x43810000"
  by (simp add: float32_of_int_def floor_log2.simps Let_def)

lemma float32_bytes_1_258:
  "concat (map float32_bytes [0x3F800000, 0x43810000]) = [0, 0, 128, 63, 0, 0, 129, 67]"
  by (simp add: float32_bytes_def bytes32_def)

text \<open>
  C5 (amended). On \<^verbatim>\<open>stopRecording\<close>, when the engine's stop result carries a file path
  that is not the empty string and the file is read, the returned bytes are exactly the
  bytes read from that file, of type \<^verbatim>\<open>audio/wav\<close>, with no encoding applied. When the file
  path is absent or the empty string, no file is read and the returned blob is exactly the
  WAV encoder applied to the samples, the sample rate and the channel count of the stop
  result; the encoder does return one. The two cases exclude each other and cover every
  stop result.
\<close>

theorem stopRecording_audio_source:
  fixes h :: "('w, 'e, 'n) Host"
  assumes stop: "stop_recording h w = (Inr audioRecording, w1)"
  shows "case run (stopRecording h ::
                 (('w, 'e, 'n) Runtime, (('e, 'p) RecorderServiceError + Blob) option) state) w of
           (result, s') \<Rightarrow>
             (\<forall>path fileBytes w2.
                truthy (filePath audioRecording) = Some path \<and>
                fs_readFile h path w1 = (Inr fileBytes, w2) \<longrightarrow>
                  result = Some (Inr \<lparr>blob_bytes = fileBytes, blob_type = ''audio/wav''\<rparr>) \<and>
                  ReadFile path \<in> set (trace s')) \<and>
             (truthy (filePath audioRecording) = None \<longrightarrow>
                (\<exists>blob. createWavFromFloat32 (map (toFloat32 h) (audioData audioRecording))
                          (sampleRate audioRecording) (channels audioRecording) = Some blob \<and>
                        result = Some (Inr blob)) \<and>
                (\<forall>path. ReadFile path \<notin> set (trace s')))"
  using stop
  by (auto simp: stopRecording_def recordingBlob_def closeSession_def run_prims
        createWavFromFloat32_closed_form split: prod.splits sum.splits)

text \<open>An engine that recorded to a file, and one that returns two samples.\<close>

theorem stopRecording_audio_source_witness:
  "fst (run (stopRecording example_host) 0) =
       Some (Inr \<lparr>blob_bytes = [82, 73, 70, 70], blob_type = ''audio/wav''\<rparr> ::
         (string, unit) RecorderServiceError + Blob)
   \<and> map (toFloat32 legacy_host) [1, 258] = [0x3F800000, 0x43810000]
   \<and> fst (run (stopRecording legacy_host) 0) =
       (Some (Inr \<lparr>blob_bytes = wav_header 2 44100 2 @ [0, 0, 128, 63, 0, 0, 129, 67],
                    blob_type = ''audio/wav''\<rparr>) ::
         ((string, unit) RecorderServiceError + Blob) option)"
proof -
  have stop: "stop_recording example_host 0 =
     (Inr \<lparr>audioData = [], sampleRate = 16000, channels = 1, durationSeconds = 0,
           filePath = Some ''rec-1.wav''\<rparr>, 1)"
    by (simp add: example_host_def)
  have readable: "truthy (filePath \<lparr>audioData = [] :: int list, sampleRate = 16000, channels = 1,
           durationSeconds = 0, filePath = Some ''rec-1.wav''\<rparr>) = Some ''rec-1.wav''
         \<and> fs_readFile example_host ''rec-1.wav'' 1 = (Inr [82, 73, 70, 70], 2)"
    by (simp add: example_host_def truthy_def)
  obtain result s' where
    r: "run (stopRecording example_host) 0 =
          (result :: ((string, unit) RecorderServiceError + Blob) option, s')"
    by (cases "run (stopRecording example_host) 0 ::
          ((string, unit) RecorderServiceError + Blob) option \<times> (nat, string, int) Runtime")
  from stopRecording_audio_source [OF stop, where ?'p = unit] r readable
  have first: "result = Some (Inr \<lparr>blob_bytes = [82, 73, 70, 70], blob_type = ''audio/wav''\<rparr>)"
    by auto
  have stop2: "stop_recording legacy_host 0 =
     (Inr \<lparr>audioData = [1, 258], sampleRate = 44100, channels = 2, durationSeconds = 0,
           filePath = None\<rparr>, 1)"
    by (simp add: legacy_host_def example_host_def)
  have samples: "map (toFloat32 legacy_host) [1, 258] = [0x3F800000, 0x43810000]"
    by (simp add: legacy_host_def example_host_def float32_of_1 float32_of_258)
  have absent: "truthy (filePath \<lparr>audioData = [1, 258 :: int], sampleRate = 44100, channels = 2,
           durationSeconds = 0 :: int, filePath = None\<rparr>) = None"
    by (simp add: truthy_def)
  have enc: "createWavFromFloat32 [0x3F800000, 0x43810000] 44100 2 =
       Some \<lparr>blob_bytes = wav_header 2 44100 2 @ [0, 0, 128, 63, 0, 0, 129, 67],
             blob_type = ''audio/wav''\<rparr>"
    by (simp only: createWavFromFloat32_closed_form float32_bytes_1_258)
       (simp add: numeral_2_eq_2)
  obtain result2 s2 where
    r2: "run (stopRecording legacy_host) 0 =
          (result2 :: ((string, unit) RecorderServiceError + Blob) option, s2)"
    by (cases "run (stopRecording legacy_host) 0 ::
          ((string, unit) RecorderServiceError + Blob) option \<times> (nat, string, int) Runtime")
  from stopRecording_audio_source [OF stop2, where ?'p = unit] r2 absent
  have "\<exists>blob. createWavFromFloat32 (map (toFloat32 legacy_host) [1, 258]) 44100 2 = Some blob \<and>
          result2 = Some (Inr blob)"
    by auto
  then have second: "result2 =
      Some (Inr \<lparr>blob_bytes = wav_header 2 44100 2 @ [0, 0, 128, 63, 0, 0, 129, 67],
                  blob_type = ''audio/wav''\<rparr>)"
    using samples enc by auto
  from first second samples r r2 show ?thesis by simp
qed

text \<open>
  C5 as stated fails for a stop result whose file path is the empty string: the test
  \<^verbatim>\<open>if (audioRecording.filePath)\<close> takes it for absent, no file is read, and the samples
  are encoded.
\<close>

theorem stopRecording_empty_path_counterexample:
  "fst (stop_recording empty_path_host 0) =
     Inr \<lparr>audioData = [1, 258], sampleRate = 44100, channels = 2, durationSeconds = 0,
          filePath = Some ''''\<rparr>
   \<and> map (toFloat32 empty_path_host) [1, 258] = [0x3F800000, 0x43810000]
   \<and> createWavFromFloat32 [0x3F800000, 0x43810000] 44100 2 =
       Some \<lparr>blob_bytes = wav_header 2 44100 2 @ [0, 0, 128, 63, 0, 0, 129, 67],
             blob_type = ''audio/wav''\<rparr>
   \<and> run (stopRecording empty_path_host) 0 =
       (Some (Inr \<lparr>blob_bytes = wav_header 2 44100 2 @ [0, 0, 128, 63, 0, 0, 129, 67],
                    blob_type = ''audio/wav''\<rparr>) ::
          ((string, unit) RecorderServiceError + Blob) option,
        \<lparr>world = 2,
         trace = [Invoke ''stop_recording'' None, SendStatus Closing_Session,
                  Invoke ''close_recording_session'' None]\<rparr>)"
proof -
  have samples: "map (toFloat32 empty_path_host) [1, 258] = [0x3F800000, 0x43810000]"
    by (simp add: empty_path_host_def example_host_def float32_of_1 float32_of_258)
  have enc: "createWavFromFloat32 [0x3F800000, 0x43810000] 44100 2 =
       Some \<lparr>blob_bytes = wav_header 2 44100 2 @ [0, 0, 128, 63, 0, 0, 129, 67],
             blob_type = ''audio/wav''\<rparr>"
    by (simp only: createWavFromFloat32_closed_form float32_bytes_1_258)
       (simp add: numeral_2_eq_2)
  have stop: "stop_recording empty_path_host 0 =
     (Inr \<lparr>audioData = [1, 258], sampleRate = 44100, channels = 2, durationSeconds = 0,
           filePath = Some ''''\<rparr>, 1)"
    and close: "close_recording_session empty_path_host 1 = (Inr (), 2)"
    by (simp_all add: empty_path_host_def example_host_def)
  have "run (stopRecording empty_path_host) 0 =
       (Some (Inr \<lparr>blob_bytes = wav_header 2 44100 2 @ [0, 0, 128, 63, 0, 0, 129, 67],
                    blob_type = ''audio/wav''\<rparr>) ::
          ((string, unit) RecorderServiceError + Blob) option,
        \<lparr>world = 2,
         trace = [Invoke ''stop_recording'' None, SendStatus Closing_Session,
                  Invoke ''close_recording_session'' None]\<rparr>)"
    using stop close samples enc
    by (simp add: stopRecording_def recordingBlob_def closeSession_def run_prims truthy_def)
  with stop samples enc show ?thesis by simp
qed

text \<open>
  C6. When the engine's stop command succeeds and the blob is produced (the file is read,
  or the samples are encoded), and the close command then fails, \<^verbatim>\<open>stopRecording\<close> still
  returns that blob as its successful result. The failure of the close command appears
  only as the last line of the trace, written with \<^verbatim>\<open>console.error\<close>.
\<close>

theorem stopRecording_close_failure:
  fixes h :: "('w, 'e, 'n) Host" and s2 :: "('w, 'e, 'n) Runtime"
  assumes stop: "stop_recording h w = (Inr audioRecording, w1)"
    and produced: "run_state (recordingBlob h audioRecording)
                     \<lparr>world = w1, trace = [Invoke ''stop_recording'' None]\<rparr> =
                   (Inr blob :: (('e, 'p) RecorderServiceError + Blob) option + Blob, s2)"
    and close: "close_recording_session h (world s2) = (Inl e, w3)"
  shows "run (stopRecording h) w =
           (Some (Inr blob :: ('e, 'p) RecorderServiceError + Blob),
            \<lparr>world = w3,
             trace = trace s2 @
               [SendStatus Closing_Session,
                Invoke ''close_recording_session'' None,
                ConsoleError ''Failed to close recording session:''
                  (cause_invoke (TauriInvokeError ''close_recording_session'' e))]\<rparr>)"
  using stop produced close
  by (simp add: stopRecording_def closeSession_def run_prims)

text \<open>The file is read, the session is busy when it is closed.\<close>

theorem stopRecording_close_failure_witness:
  "run (stopRecording failing_cleanup_host) 0 =
     (Some (Inr \<lparr>blob_bytes = [82, 73, 70, 70], blob_type = ''audio/wav''\<rparr> ::
        (string, unit) RecorderServiceError + Blob),
      \<lparr>world = 3,
       trace = [Invoke ''stop_recording'' None, SendStatus Reading_Recording, ReadFile ''rec-1.wav'',
                SendStatus Closing_Session, Invoke ''close_recording_session'' None,
                ConsoleError ''Failed to close recording session:''
                  (cause_invoke (TauriInvokeError ''close_recording_session'' ''session busy''))]\<rparr>)"
proof -
  have stop: "stop_recording failing_cleanup_host 0 =
     (Inr \<lparr>audioData = [], sampleRate = 16000, channels = 1, durationSeconds = 0,
           filePath = Some ''rec-1.wav''\<rparr>, 1)"
    by (simp add: failing_cleanup_host_def example_host_def)
  have produced: "run_state (recordingBlob failing_cleanup_host
       \<lparr>audioData = [], sampleRate = 16000, channels = 1, durationSeconds = 0,
        filePath = Some ''rec-1.wav''\<rparr>)
       \<lparr>world = 1, trace = [Invoke ''stop_recording'' None]\<rparr> =
     (Inr \<lparr>blob_bytes = [82, 73, 70, 70], blob_type = ''audio/wav''\<rparr> ::
        ((string, unit) RecorderServiceError + Blob) option + Blob,
      \<lparr>world = 2, trace = [Invoke ''stop_recording'' None, SendStatus Reading_Recording,
                             ReadFile ''rec-1.wav'']\<rparr>)"
    by (simp add: recordingBlob_def failing_cleanup_host_def example_host_def truthy_def run_prims)
  have close: "close_recording_session failing_cleanup_host
         (world \<lparr>world = 2 :: nat, trace = [Invoke ''stop_recording'' None, SendStatus Reading_Recording,
                             ReadFile ''rec-1.wav''] :: (string, int) Event list\<rparr>) =
       (Inl ''session busy'', 3)"
    by (simp add: failing_cleanup_host_def example_host_def)
  from stopRecording_close_failure [OF stop produced close] show ?thesis by simp
qed

subsection \<open>Cancelling a recording\<close>

text \<open>
  C7. When the engine reports no current recording id (the query succeeds with an absent
  id; the same holds for the empty string), \<^verbatim>\<open>cancelRecording\<close> returns the
  \<^verbatim>\<open>no-recording\<close> status, and the only call it has issued is the query itself: no stop, no
  file removal, no close and no status notification.
\<close>

theorem cancelRecording_no_recording:
  fixes h :: "('w, 'e, 'n) Host"
  assumes "get_current_recording_id h w = (Inr currentRecordingId, w1)"
    and "truthy currentRecordingId = None"
  shows "run (cancelRecording h) w =
           (Inr no_recording :: ('e, 'p) RecorderServiceError + CancelRecordingResult,
            \<lparr>world = w1, trace = [Invoke ''get_current_recording_id'' None]\<rparr>)"
  using assms by (simp add: cancelRecording_def run_prims)

text \<open>An engine with no recording in progress.\<close>

theorem cancelRecording_no_recording_witness:
  "get_current_recording_id idle_host 0 = (Inr None, 1)
   \<and> run (cancelRecording idle_host) 0 =
       (Inr no_recording :: (string, unit) RecorderServiceError + CancelRecordingResult,
        \<lparr>world = 1, trace = [Invoke ''get_current_recording_id'' None]\<rparr>)"
proof -
  have a: "get_current_recording_id idle_host 0 = (Inr None, 1)"
    by (simp add: idle_host_def example_host_def)
  have b: "truthy None = None"
    by (simp add: truthy_def)
  from cancelRecording_no_recording [OF a b, where ?'p = unit] a show ?thesis by simp
qed

text \<open>The run of \<^verbatim>\<open>cancelRecording\<close> on an active recording, whatever the stop, the
  removal and the close answer, and the only way it fails.\<close>

lemma cancelRecording_cancelled:
  fixes h :: "('w, 'e, 'n) Host"
  assumes current: "get_current_recording_id h w = (Inr currentRecordingId, w1)"
    and active: "truthy currentRecordingId = Some activeId"
    and stop: "stop_recording h w1 = (stopped, w2)"
    and path: "path = (case stopped of Inl _ \<Rightarrow> None
                       | Inr audioRecording \<Rightarrow> truthy (filePath audioRecording))"
    and removal: "(case path of None \<Rightarrow> (Inr (), w2) | Some p \<Rightarrow> fs_remove h p w2) = (removed, w3)"
    and close: "close_recording_session h w3 = (closed, w4)"
  shows "run (cancelRecording h) w =
           (Inr cancelled :: ('e, 'p) RecorderServiceError + CancelRecordingResult,
            \<lparr>world = w4,
             trace =
               [Invoke ''get_current_recording_id'' None, SendStatus Cancelling,
                Invoke ''stop_recording'' None] @
               (case path of
                  None \<Rightarrow> []
                | Some p \<Rightarrow>
                    Remove p #
                    (case removed of
                       Inl error \<Rightarrow> [ConsoleError ''Failed to delete recording file:'' (cause_thrown error)]
                     | Inr _ \<Rightarrow> [])) @
               [SendStatus Closing_Session, Invoke ''close_recording_session'' None] @
               (case closed of
                  Inl closeError \<Rightarrow>
                    [ConsoleError ''Failed to close recording session:''
                       (cause_invoke (TauriInvokeError ''close_recording_session'' closeError))]
                | Inr _ \<Rightarrow> [])\<rparr>)"
  using assms
  by (auto simp: cancelRecording_def closeSession_def run_prims split: sum.splits option.splits)

lemma cancelRecording_fails_iff:
  fixes h :: "('w, 'e, 'n) Host"
  shows "isl (fst (run (cancelRecording h ::
            (('w, 'e, 'n) Runtime, ('e, 'p) RecorderServiceError + CancelRecordingResult) state) w)) =
         isl (fst (get_current_recording_id h w))"
  by (auto simp: cancelRecording_def closeSession_def run_prims RecorderServiceErr_def
        split: sum.splits option.splits prod.splits)

text \<open>
  C8 (amended). \<^verbatim>\<open>cancelRecording\<close> returns an error exactly when the query for the
  current recording id fails. Whenever the query succeeds with an id that is not the empty
  string, it returns the \<^verbatim>\<open>cancelled\<close> status, which carries no audio bytes, whatever the
  stop command, the file removal and the close command answer. A failed removal and a
  failed close are each written with \<^verbatim>\<open>console.error\<close>; a failed stop is dropped and
  written nowhere. The removal is attempted only when the stop succeeded with a non-empty
  file path.
\<close>

theorem cancelRecording_outcome:
  fixes h :: "('w, 'e, 'n) Host"
  shows "isl (fst (run (cancelRecording h ::
              (('w, 'e, 'n) Runtime, ('e, 'p) RecorderServiceError + CancelRecordingResult) state) w)) =
           isl (fst (get_current_recording_id h w))
       \<and> (\<forall>currentRecordingId activeId w1 stopped w2 path removed w3 closed w4.
            get_current_recording_id h w = (Inr currentRecordingId, w1) \<and>
            truthy currentRecordingId = Some activeId \<and>
            stop_recording h w1 = (stopped, w2) \<and>
            path = (case stopped of Inl _ \<Rightarrow> None
                    | Inr audioRecording \<Rightarrow> truthy (filePath audioRecording)) \<and>
            (case path of None \<Rightarrow> (Inr (), w2) | Some p \<Rightarrow> fs_remove h p w2) = (removed, w3) \<and>
            close_recording_session h w3 = (closed, w4) \<longrightarrow>
            run (cancelRecording h) w =
              (Inr cancelled :: ('e, 'p) RecorderServiceError + CancelRecordingResult,
               \<lparr>world = w4,
                trace =
                  [Invoke ''get_current_recording_id'' None, SendStatus Cancelling,
                   Invoke ''stop_recording'' None] @
                  (case path of
                     None \<Rightarrow> []
                   | Some p \<Rightarrow>
                       Remove p #
                       (case removed of
                          Inl error \<Rightarrow>
                            [ConsoleError ''Failed to delete recording file:'' (cause_thrown error)]
                        | Inr _ \<Rightarrow> [])) @
                  [SendStatus Closing_Session, Invoke ''close_recording_session'' None] @
                  (case closed of
                     Inl closeError \<Rightarrow>
                       [ConsoleError ''Failed to close recording session:''
                          (cause_invoke (TauriInvokeError ''close_recording_session'' closeError))]
                   | Inr _ \<Rightarrow> [])\<rparr>))"
proof (intro conjI allI impI)
  show "isl (fst (run (cancelRecording h ::
              (('w, 'e, 'n) Runtime, ('e, 'p) RecorderServiceError + CancelRecordingResult) state) w)) =
        isl (fst (get_current_recording_id h w))"
    by (rule cancelRecording_fails_iff)
next
  fix currentRecordingId activeId w1 stopped w2 path removed w3 closed w4
  assume "get_current_recording_id h w = (Inr currentRecordingId, w1) \<and>
            truthy currentRecordingId = Some activeId \<and>
            stop_recording h w1 = (stopped, w2) \<and>
            path = (case stopped of Inl _ \<Rightarrow> None
                    | Inr audioRecording \<Rightarrow> truthy (filePath audioRecording)) \<and>
            (case path of None \<Rightarrow> (Inr (), w2) | Some p \<Rightarrow> fs_remove h p w2) = (removed, w3) \<and>
            close_recording_session h w3 = (closed, w4)"
  then show "run (cancelRecording h) w =
              (Inr cancelled :: ('e, 'p) RecorderServiceError + CancelRecordingResult,
               \<lparr>world = w4,
                trace =
                  [Invoke ''get_current_recording_id'' None, SendStatus Cancelling,
                   Invoke ''stop_recording'' None] @
                  (case path of
                     None \<Rightarrow> []
                   | Some p \<Rightarrow>
                       Remove p #
                       (case removed of
                          Inl error \<Rightarrow>
                            [ConsoleError ''Failed to delete recording file:'' (cause_thrown error)]
                        | Inr _ \<Rightarrow> [])) @
                  [SendStatus Closing_Session, Invoke ''close_recording_session'' None] @
                  (case closed of
                     Inl closeError \<Rightarrow>
                       [ConsoleError ''Failed to close recording session:''
                          (cause_invoke (TauriInvokeError ''close_recording_session'' closeError))]
                   | Inr _ \<Rightarrow> [])\<rparr>)"
    using cancelRecording_cancelled
      [of h w currentRecordingId w1 activeId stopped w2 path removed w3 closed w4]
    by blast
qed

text \<open>A recording to a file is cancelled; the file cannot be removed and the session is
  busy when it is closed.\<close>

theorem cancelRecording_outcome_witness:
  "get_current_recording_id failing_cleanup_host 0 = (Inr (Some ''rec-1''), 1)
   \<and> fs_remove failing_cleanup_host ''rec-1.wav'' 2 = (Inl ''permission denied'', 3)
   \<and> close_recording_session failing_cleanup_host 3 = (Inl ''session busy'', 4)
   \<and> run (cancelRecording failing_cleanup_host) 0 =
       (Inr cancelled :: (string, unit) RecorderServiceError + CancelRecordingResult,
        \<lparr>world = 4,
         trace = [Invoke ''get_current_recording_id'' None, SendStatus Cancelling,
                  Invoke ''stop_recording'' None, Remove ''rec-1.wav'',
                  ConsoleError ''Failed to delete recording file:'' (cause_thrown ''permission denied''),
                  SendStatus Closing_Session, Invoke ''close_recording_session'' None,
                  ConsoleError ''Failed to close recording session:''
                    (cause_invoke (TauriInvokeError ''close_recording_session'' ''session busy''))]\<rparr>)"
proof -
  have a: "get_current_recording_id failing_cleanup_host 0 = (Inr (Some ''rec-1''), 1)"
    and b: "truthy (Some ''rec-1'') = Some ''rec-1''"
    and c: "stop_recording failing_cleanup_host 1 =
       (Inr \<lparr>audioData = [], sampleRate = 16000, channels = 1, durationSeconds = 0,
             filePath = Some ''rec-1.wav''\<rparr>, 2)"
    and d: "Some ''rec-1.wav'' = (case (Inr \<lparr>audioData = [], sampleRate = 16000, channels = 1,
             durationSeconds = 0, filePath = Some ''rec-1.wav''\<rparr> :: string + int AudioRecording) of
             Inl _ \<Rightarrow> None | Inr audioRecording \<Rightarrow> truthy (filePath audioRecording))"
    and e: "(case Some ''rec-1.wav'' of None \<Rightarrow> (Inr (), 2)
             | Some p \<Rightarrow> fs_remove failing_cleanup_host p 2) = (Inl ''permission denied'', 3)"
    and f: "close_recording_session failing_cleanup_host 3 = (Inl ''session busy'', 4)"
    by (simp_all add: failing_cleanup_host_def example_host_def truthy_def)
  from cancelRecording_outcome [of failing_cleanup_host 0, where ?'p = unit] a b c d e f
  have "run (cancelRecording failing_cleanup_host) 0 =
       (Inr cancelled :: (string, unit) RecorderServiceError + CancelRecordingResult,
        \<lparr>world = 4,
         trace = [Invoke ''get_current_recording_id'' None, SendStatus Cancelling,
                   Invoke ''stop_recording'' None] @
                  (case Some ''rec-1.wav'' of
                     None \<Rightarrow> []
                   | Some p \<Rightarrow>
                       Remove p #
                       (case (Inl ''permission denied'' :: string + unit) of
                          Inl error \<Rightarrow>
                            [ConsoleError ''Failed to delete recording file:'' (cause_thrown error)]
                        | Inr _ \<Rightarrow> [])) @
                  [SendStatus Closing_Session, Invoke ''close_recording_session'' None] @
                  (case (Inl ''session busy'' :: string + unit) of
                     Inl closeError \<Rightarrow>
                       [ConsoleError ''Failed to close recording session:''
                          (cause_invoke (TauriInvokeError ''close_recording_session'' closeError))]
                   | Inr _ \<Rightarrow> [])\<rparr>)"
    by blast
  then show ?thesis using a e f by simp
qed

text \<open>
  C8 as stated fails for the stop command: when it fails during a cancel, the trace holds
  no line written with \<^verbatim>\<open>console.error\<close>. Line 268 reads only the data of the result.
\<close>

theorem cancelRecording_stop_failure_counterexample:
  "get_current_recording_id failing_stop_host 0 = (Inr (Some ''rec-1''), 1)
   \<and> stop_recording failing_stop_host 1 = (Inl ''no active session'', 2)
   \<and> run (cancelRecording failing_stop_host) 0 =
       (Inr cancelled :: (string, unit) RecorderServiceError + CancelRecordingResult,
        \<lparr>world = 3,
         trace = [Invoke ''get_current_recording_id'' None, SendStatus Cancelling,
                  Invoke ''stop_recording'' None,
                  SendStatus Closing_Session, Invoke ''close_recording_session'' None]\<rparr>)"
  by (simp add: cancelRecording_def closeSession_def run_prims failing_stop_host_def example_host_def
        truthy_def)

subsection \<open>Starting a recording\<close>

text \<open>The device that a fallback names is the first entry of the enumerated list.\<close>

lemma acquireDevice_fallback_first:
  assumes "fst (run_state (acquireDevice deviceIds selected) s) = Inr (fallback reason d)"
  shows "deviceIds \<noteq> [] \<and> d = hd deviceIds"
  using assms
  by (cases deviceIds)
     (auto simp: acquireDevice_outcome truthy_def Array_at0_def RecorderServiceErr_def
        split: option.splits if_splits)

text \<open>
  C9 (amended). When devices are enumerated, a device is acquired and the engine's
  \<^verbatim>\<open>init_recording_session\<close> command then fails, \<^verbatim>\<open>startRecording\<close> returns the error
  whose message is that of line 147, whose context holds the selected device and the
  device handed to the engine, and nothing of the recording (no recording id, output
  folder or sample rate), and whose cause is the failure of that command. The device
  handed to the engine is the selected one when the outcome is success and the first
  enumerated device when it is a fallback. The calls issued are the enumeration, the
  notification of the acquisition if any, the notification of the set-up and the failed
  command: neither the \<^verbatim>\<open>start_recording\<close> command nor the
  \<^verbatim>\<open>close_recording_session\<close> command is among them.
\<close>

theorem startRecording_init_failure:
  fixes h :: "('w, 'e, 'n) Host" and s0 :: "('w, 'e, 'n) Runtime"
  assumes enumerate: "enumerate_recording_devices h w = (Inr deviceIds, w1)"
    and acquire: "fst (run_state (acquireDevice deviceIds (selectedDeviceId dp)) s0) =
                  (Inr deviceOutcome :: ('e, 'p) RecorderServiceError + DeviceAcquisitionOutcome)"
    and device: "device = (case deviceOutcome of
                             success \<Rightarrow> selectedDeviceId dp
                           | fallback reason fallbackDeviceId \<Rightarrow> Some fallbackDeviceId)"
    and args: "args = \<lparr>deviceIdentifier = device,
                       init_recordingId = recordingId dp,
                       init_outputFolder = truthy (outputFolder dp),
                       init_sampleRate = map_option (parseInt10 h) (truthy (params_sampleRate dp))\<rparr>"
    and init: "init_recording_session h args w1 = (Inl e, w2)"
  shows "run (startRecording h (desktop dp)) w =
           (Inl \<lparr>message = session_setup_failed,
                 error_context = context_init (selectedDeviceId dp) device,
                 cause = cause_invoke (TauriInvokeError ''init_recording_session'' e)\<rparr> ::
              ('e, 'p) RecorderServiceError + DeviceAcquisitionOutcome,
            \<lparr>world = w2,
             trace = [Invoke ''enumerate_recording_devices'' None] @
               (case deviceOutcome of
                  success \<Rightarrow> []
                | fallback no_device_selected _ \<Rightarrow> [SendStatus No_Device_Selected]
                | fallback preferred_device_unavailable _ \<Rightarrow> [SendStatus Finding_a_New_Microphone]) @
               [SendStatus Setting_Up, Invoke ''init_recording_session'' (Some args)]\<rparr>)
       \<and> Invoke ''start_recording'' None \<notin>
             set (trace (snd (run (startRecording h (desktop dp) ::
               (('w, 'e, 'n) Runtime, ('e, 'p) RecorderServiceError + DeviceAcquisitionOutcome) state) w)))
       \<and> Invoke ''close_recording_session'' None \<notin>
             set (trace (snd (run (startRecording h (desktop dp) ::
               (('w, 'e, 'n) Runtime, ('e, 'p) RecorderServiceError + DeviceAcquisitionOutcome) state) w)))
       \<and> (deviceOutcome = success \<longrightarrow> device = selectedDeviceId dp)
       \<and> (deviceOutcome \<noteq> success \<longrightarrow> deviceIds \<noteq> [] \<and> device = Some (hd deviceIds))"
proof -
  let ?s1 = "\<lparr>world = w1, trace = [Invoke ''enumerate_recording_devices'' None]\<rparr> :: ('w, 'e, 'n) Runtime"
  have out: "fst (run_state (acquireDevice deviceIds (selectedDeviceId dp)) ?s1) =
          (Inr deviceOutcome :: ('e, 'p) RecorderServiceError + DeviceAcquisitionOutcome)"
    using acquire by (simp only: acquireDevice_outcome)
  obtain s' where run1: "run_state (acquireDevice deviceIds (selectedDeviceId dp)) ?s1 =
     (Inr deviceOutcome :: ('e, 'p) RecorderServiceError + DeviceAcquisitionOutcome, s')"
    using out by (metis prod.collapse)
  have acq: "run_state (acquireDevice deviceIds (selectedDeviceId dp)) ?s1 =
     (Inr deviceOutcome :: ('e, 'p) RecorderServiceError + DeviceAcquisitionOutcome,
      ?s1\<lparr>trace := trace ?s1 @
        (case deviceOutcome of
           success \<Rightarrow> []
         | fallback no_device_selected _ \<Rightarrow> [SendStatus No_Device_Selected]
         | fallback preferred_device_unavailable _ \<Rightarrow> [SendStatus Finding_a_New_Microphone])\<rparr>)"
    using acquireDevice_statuses[OF run1] run1 by simp
  have chosen: "chosenDevice (selectedDeviceId dp) deviceOutcome = device"
    by (simp add: chosenDevice_def device)
  have init_args: "initArgs h dp device = args"
    by (simp add: initArgs_def args)
  have main: "run (startRecording h (desktop dp)) w =
           (Inl \<lparr>message = session_setup_failed,
                 error_context = context_init (selectedDeviceId dp) device,
                 cause = cause_invoke (TauriInvokeError ''init_recording_session'' e)\<rparr> ::
              ('e, 'p) RecorderServiceError + DeviceAcquisitionOutcome,
            \<lparr>world = w2,
             trace = [Invoke ''enumerate_recording_devices'' None] @
               (case deviceOutcome of
                  success \<Rightarrow> []
                | fallback no_device_selected _ \<Rightarrow> [SendStatus No_Device_Selected]
                | fallback preferred_device_unavailable _ \<Rightarrow> [SendStatus Finding_a_New_Microphone]) @
               [SendStatus Setting_Up, Invoke ''init_recording_session'' (Some args)]\<rparr>)"
    using enumerate acq init
    by (simp add: startRecording_def enumerateRecordingDeviceIds_def run_prims chosen init_args
          RecorderServiceErr_def)
  have no_calls: "Invoke ''start_recording'' None \<notin>
             set (trace (snd (run (startRecording h (desktop dp) ::
               (('w, 'e, 'n) Runtime, ('e, 'p) RecorderServiceError + DeviceAcquisitionOutcome) state) w)))
       \<and> Invoke ''close_recording_session'' None \<notin>
             set (trace (snd (run (startRecording h (desktop dp) ::
               (('w, 'e, 'n) Runtime, ('e, 'p) RecorderServiceError + DeviceAcquisitionOutcome) state) w)))"
    by (simp add: main split: DeviceAcquisitionOutcome.splits FallbackReason.splits)
  have which: "(deviceOutcome = success \<longrightarrow> device = selectedDeviceId dp)
       \<and> (deviceOutcome \<noteq> success \<longrightarrow> deviceIds \<noteq> [] \<and> device = Some (hd deviceIds))"
  proof (cases deviceOutcome)
    case success
    then show ?thesis by (simp add: device)
  next
    case (fallback reason d)
    with acquire have "fst (run_state (acquireDevice deviceIds (selectedDeviceId dp)) s0) =
        (Inr (fallback reason d) :: ('e, 'p) RecorderServiceError + DeviceAcquisitionOutcome)"
      by simp
    from acquireDevice_fallback_first [OF this] fallback show ?thesis
      by (simp add: device)
  qed
  from main no_calls which show ?thesis by simp
qed

text \<open>
  The engine is busy when the session is initialised: once with the USB microphone
  selected and found, once with nothing selected, so that the first microphone is handed
  to the engine.
\<close>

theorem startRecording_init_failure_witness:
  "run (startRecording failing_init_host (desktop example_params)) 0 =
     (Inl \<lparr>message = session_setup_failed,
           error_context = context_init (Some ''USB Microphone'') (Some ''USB Microphone''),
           cause = cause_invoke (TauriInvokeError ''init_recording_session'' ''device busy'')\<rparr> ::
        (string, unit) RecorderServiceError + DeviceAcquisitionOutcome,
      \<lparr>world = 2,
       trace = [Invoke ''enumerate_recording_devices'' None, SendStatus Setting_Up,
                Invoke ''init_recording_session''
                  (Some \<lparr>deviceIdentifier = Some ''USB Microphone'', init_recordingId = ''rec-1'',
                         init_outputFolder = None, init_sampleRate = Some 16000\<rparr>)]\<rparr>)
   \<and> run (startRecording failing_init_host
            (desktop (example_params\<lparr>selectedDeviceId := None\<rparr>))) 0 =
     (Inl \<lparr>message = session_setup_failed,
           error_context = context_init None (Some ''Built-in Microphone''),
           cause = cause_invoke (TauriInvokeError ''init_recording_session'' ''device busy'')\<rparr> ::
        (string, unit) RecorderServiceError + DeviceAcquisitionOutcome,
      \<lparr>world = 2,
       trace = [Invoke ''enumerate_recording_devices'' None, SendStatus No_Device_Selected,
                SendStatus Setting_Up,
                Invoke ''init_recording_session''
                  (Some \<lparr>deviceIdentifier = Some ''Built-in Microphone'', init_recordingId = ''rec-1'',
                         init_outputFolder = None, init_sampleRate = Some 16000\<rparr>)]\<rparr>)"
proof -
  let ?absent = "example_params\<lparr>selectedDeviceId := None\<rparr>"
  let ?args1 = "\<lparr>deviceIdentifier = Some ''USB Microphone'', init_recordingId = ''rec-1'',
                 init_outputFolder = None, init_sampleRate = Some (16000 :: int)\<rparr>"
  let ?args2 = "\<lparr>deviceIdentifier = Some ''Built-in Microphone'', init_recordingId = ''rec-1'',
                 init_outputFolder = None, init_sampleRate = Some (16000 :: int)\<rparr>"
  have a: "enumerate_recording_devices failing_init_host 0 =
             (Inr [''Built-in Microphone'', ''USB Microphone''], 1)"
    by (simp add: failing_init_host_def example_host_def)
  have b1: "fst (run_state (acquireDevice [''Built-in Microphone'', ''USB Microphone'']
                   (selectedDeviceId example_params))
                 \<lparr>world = 0 :: nat, trace = [] :: (string, int) Event list\<rparr>) =
             (Inr success :: (string, unit) RecorderServiceError + DeviceAcquisitionOutcome)"
    by (simp add: acquireDevice_outcome truthy_def Array_at0_def example_params_def)
  have c1: "Some ''USB Microphone'' =
      (case success of success \<Rightarrow> selectedDeviceId example_params
       | fallback reason fallbackDeviceId \<Rightarrow> Some fallbackDeviceId)"
    by (simp add: example_params_def)
  have d1: "?args1 = \<lparr>deviceIdentifier = Some ''USB Microphone'',
                       init_recordingId = recordingId example_params,
                       init_outputFolder = truthy (outputFolder example_params),
                       init_sampleRate = map_option (parseInt10 failing_init_host)
                         (truthy (params_sampleRate example_params))\<rparr>"
    by (simp add: example_params_def failing_init_host_def example_host_def truthy_def)
  have e1: "init_recording_session failing_init_host ?args1 1 = (Inl ''device busy'', 2)"
    by (simp add: failing_init_host_def example_host_def)
  have b2: "fst (run_state (acquireDevice [''Built-in Microphone'', ''USB Microphone'']
                   (selectedDeviceId ?absent))
                 \<lparr>world = 0 :: nat, trace = [] :: (string, int) Event list\<rparr>) =
             (Inr (fallback no_device_selected ''Built-in Microphone'') ::
                (string, unit) RecorderServiceError + DeviceAcquisitionOutcome)"
    by (simp add: acquireDevice_outcome truthy_def Array_at0_def example_params_def)
  have c2: "Some ''Built-in Microphone'' =
      (case fallback no_device_selected ''Built-in Microphone'' of
         success \<Rightarrow> selectedDeviceId ?absent
       | fallback reason fallbackDeviceId \<Rightarrow> Some fallbackDeviceId)"
    by simp
  have d2: "?args2 = \<lparr>deviceIdentifier = Some ''Built-in Microphone'',
                       init_recordingId = recordingId ?absent,
                       init_outputFolder = truthy (outputFolder ?absent),
                       init_sampleRate = map_option (parseInt10 failing_init_host)
                         (truthy (params_sampleRate ?absent))\<rparr>"
    by (simp add: example_params_def failing_init_host_def example_host_def truthy_def)
  have e2: "init_recording_session failing_init_host ?args2 1 = (Inl ''device busy'', 2)"
    by (simp add: failing_init_host_def example_host_def)
  from startRecording_init_failure [OF a b1 c1 d1 e1] startRecording_init_failure [OF a b2 c2 d2 e2]
  show ?thesis
    by (simp add: example_params_def)
qed

text \<open>
  C9 as stated fails for the recording context: two calls that differ in the recording id
  alone, each with a failing \<^verbatim>\<open>init_recording_session\<close>, return the same error, which
  names the devices and not the recording.
\<close>

theorem startRecording_recording_id_counterexample:
  "recordingId example_params = ''rec-1''
   \<and> recordingId (example_params\<lparr>recordingId := ''rec-2''\<rparr>) = ''rec-2''
   \<and> fst (run (startRecording failing_init_host (desktop example_params)) 0) =
       (Inl \<lparr>message = session_setup_failed,
             error_context = context_init (Some ''USB Microphone'') (Some ''USB Microphone''),
             cause = cause_invoke (TauriInvokeError ''init_recording_session'' ''device busy'')\<rparr> ::
          (string, unit) RecorderServiceError + DeviceAcquisitionOutcome)
   \<and> fst (run (startRecording failing_init_host
              (desktop (example_params\<lparr>recordingId := ''rec-2''\<rparr>))) 0) =
       (Inl \<lparr>message = session_setup_failed,
             error_context = context_init (Some ''USB Microphone'') (Some ''USB Microphone''),
             cause = cause_invoke (TauriInvokeError ''init_recording_session'' ''device busy'')\<rparr> ::
          (string, unit) RecorderServiceError + DeviceAcquisitionOutcome)"
  by (simp add: startRecording_def enumerateRecordingDeviceIds_def acquireDevice_def truthy_def
        Array_at0_def chosenDevice_def initArgs_def run_prims RecorderServiceErr_def
        failing_init_host_def example_host_def example_params_def)

text \<open>
  C10. When the parameters are not those of the desktop platform, \<^verbatim>\<open>startRecording\<close>
  returns an error at once: the world is unchanged and the trace is empty, so no device
  enumeration, no engine call and no status notification has been issued.
\<close>

theorem startRecording_non_desktop:
  "run (startRecording h (other_platform p)) w =
     (RecorderServiceErr ''Desktop recorder received non-desktop parameters''
        (context_params (other_platform p)) cause_undefined,
      \<lparr>world = w, trace = []\<rparr>)"
  by (simp add: startRecording_def run_def)

text \<open>Parameters of the browser's recorder.\<close>

theorem startRecording_non_desktop_witness:
  "run (startRecording example_host (other_platform ''web'')) 0 =
     (RecorderServiceErr ''Desktop recorder received non-desktop parameters''
        (context_params (other_platform ''web'')) cause_undefined,
      \<lparr>world = 0, trace = []\<rparr>)"
  by (rule startRecording_non_desktop)

end
